theory Spec2Isabelle
  imports Main "HOL-Library.Word" "HOL-Library.Sublist"
begin

unbundle bit_operations_syntax

section \<open>Tap-tempo LFO firmware (ATtiny84A): signaling.c and main.c\<close>

text \<open>
  The firmware keeps all of its state in global variables that interrupt handlers and the
  main loop update. The model collects the globals of \<^verbatim>\<open>signaling.c\<close> and
  \<^verbatim>\<open>main.c\<close> in one record and turns every C function into a function from state to
  state. The target is an 8-bit AVR: \<^verbatim>\<open>int\<close> has 16 bits, so \<^verbatim>\<open>uint16_t\<close> arithmetic is
  done modulo \<open>2 ^ 16\<close> and is not promoted to a wider type.
\<close>

subsection \<open>Enumerations\<close>

text \<open>
  The C enums \<^verbatim>\<open>Waveform\<close> and \<^verbatim>\<open>Multiplier\<close> are integers, and the setters compute
  \<^verbatim>\<open>g_waveform + change_value\<close> on them, so the model keeps them as integers with the
  enumerators as names for \<open>0, 1, 2, \<dots>\<close>.
\<close>

type_synonym Waveform = int
type_synonym Multiplier = int

abbreviation (input) WaveformSine :: Waveform where "WaveformSine \<equiv> 0"
abbreviation (input) WaveformRampUp :: Waveform where "WaveformRampUp \<equiv> 1"
abbreviation (input) WaveformRampDown :: Waveform where "WaveformRampDown \<equiv> 2"
abbreviation (input) WaveformTriangle :: Waveform where "WaveformTriangle \<equiv> 3"
abbreviation (input) WaveformSquare :: Waveform where "WaveformSquare \<equiv> 4"
abbreviation (input) WaveformQuadPulse :: Waveform where "WaveformQuadPulse \<equiv> 5"
abbreviation (input) WaveformRandom :: Waveform where "WaveformRandom \<equiv> 6"
abbreviation (input) WaveformCount :: Waveform where "WaveformCount \<equiv> 7"

abbreviation (input) MultiplierWhole :: Multiplier where "MultiplierWhole \<equiv> 0"
abbreviation (input) MultiplierDottedHalf :: Multiplier where "MultiplierDottedHalf \<equiv> 1"
abbreviation (input) MultiplierHalf :: Multiplier where "MultiplierHalf \<equiv> 2"
abbreviation (input) MultiplierDottedQuarter :: Multiplier where "MultiplierDottedQuarter \<equiv> 3"
abbreviation (input) MultiplierQuarter :: Multiplier where "MultiplierQuarter \<equiv> 4"
abbreviation (input) MultiplierDottedEighth :: Multiplier where "MultiplierDottedEighth \<equiv> 5"
abbreviation (input) MultiplierEighth :: Multiplier where "MultiplierEighth \<equiv> 6"
abbreviation (input) MultiplierDottedSixteenth :: Multiplier where "MultiplierDottedSixteenth \<equiv> 7"
abbreviation (input) MultiplierTriplet :: Multiplier where "MultiplierTriplet \<equiv> 8"
abbreviation (input) MultiplierSixteenth :: Multiplier where "MultiplierSixteenth \<equiv> 9"
abbreviation (input) MultiplierCount :: Multiplier where "MultiplierCount \<equiv> 10"

subsection \<open>Constants and tables\<close>

definition k_multiplier_alignment :: "nat list" where
  "k_multiplier_alignment = [4, 3, 2, 3, 1, 3, 1, 3, 2, 1]"

definition MULTIPLIER_ALIGNMENT_OFFSET :: "8 word" where
  "MULTIPLIER_ALIGNMENT_OFFSET = 12"

definition WAVEFORM_RESOLUTION :: nat where
  "WAVEFORM_RESOLUTION = 256"

definition k_sine_table :: "8 word list" where
  "k_sine_table =
    [  0,   0,   0,   0,   1,   1,   1,   2,   2,   3,   4,   5,   5,   6,   7,   9,
      10,  11,  12,  14,  15,  17,  18,  20,  21,  23,  25,  27,  29,  31,  33,  35,
      37,  40,  42,  44,  47,  49,  52,  54,  57,  59,  62,  65,  67,  70,  73,  76,
      79,  82,  85,  88,  90,  93,  97, 100, 103, 106, 109, 112, 115, 118, 121, 124]"

definition WAVEFORM_RANDOM_STEP_COUNT :: nat where
  "WAVEFORM_RANDOM_STEP_COUNT = 8"

text \<open>\<^verbatim>\<open>#define WAVEFORM_STEP_SIZE (0xff / WAVEFORM_RANDOM_STEP_COUNT)\<close>: an integer division.\<close>

definition WAVEFORM_STEP_SIZE :: nat where
  "WAVEFORM_STEP_SIZE = 255 div WAVEFORM_RANDOM_STEP_COUNT"

definition DEFAULT_TEMPO :: "16 word" where
  "DEFAULT_TEMPO = 1000"

text \<open>
  Modelled from the spec: \<^verbatim>\<open>main.h\<close> is not among the sources, so the two tempo limits
  it defines are taken from the specification and from the comment in \<^verbatim>\<open>SetBaseTempo\<close>
  (``frequencies in the range of 0.1Hz - 20Hz''): \<^verbatim>\<open>LFO_MIN_TEMPO\<close> is the period of the
  slowest rate, 0.1 Hz, and \<^verbatim>\<open>LFO_MAX_TEMPO\<close> the period of the fastest, 20 Hz, both in
  milliseconds.
\<close>

definition LFO_MIN_TEMPO :: "16 word" where
  "LFO_MIN_TEMPO = 10000"

definition LFO_MAX_TEMPO :: "16 word" where
  "LFO_MAX_TEMPO = 50"

text \<open>
  Modelled from the spec: \<^verbatim>\<open>MODE_RESET_MIN_TIME\<close> (the hold-to-reset duration in
  milliseconds) is defined in \<^verbatim>\<open>main.h\<close>; the comment in \<^verbatim>\<open>SetMultiplier\<close> speaks of
  ``depressing for 2 seconds''.
\<close>

definition MODE_RESET_MIN_TIME :: "16 word" where
  "MODE_RESET_MIN_TIME = 2000"

subsection \<open>What the model takes from outside the two source files\<close>

text \<open>
  Two things are not computed by integer code of this repository and enter the model as
  parameters.

  \<^item> The C library's generator: \<^verbatim>\<open>srand\<close> and \<^verbatim>\<open>rand\<close>. The C standard fixes the
    contract that the model uses: the sequence of values returned by \<^verbatim>\<open>rand\<close> is a function
    of the last seed. \<open>libc_rand seed n\<close> is the value of call number \<open>n\<close> (from 0) after
    \<^verbatim>\<open>srand(seed)\<close>; it is never negative.
  \<^item> The single-precision floating-point expressions of \<^verbatim>\<open>RecalculateTempo\<close> and
    \<^verbatim>\<open>AdjustPhaseAccumulation\<close>, which also use \<^verbatim>\<open>CLOCK_FREQUENCY\<close> of the absent header.
    Each is a function of the integer values it reads and is converted to \<^verbatim>\<open>uint32_t\<close>:
    \<open>tempo_to_duty t\<close> is \<^verbatim>\<open>(1000.0f / (float) t) * DUTY_CYCLE_DIVISOR\<close>,
    \<open>duty_times_ratio d m\<close> is \<^verbatim>\<open>d * k_multiplier_ratio[m]\<close> and
    \<open>phase_times_ratio p m k\<close> is \<^verbatim>\<open>p * (k_multiplier_ratio[m] * k)\<close>.
\<close>

record platform =
  libc_rand :: "32 word \<Rightarrow> nat \<Rightarrow> nat"
  tempo_to_duty :: "16 word \<Rightarrow> 32 word"
  duty_times_ratio :: "32 word \<Rightarrow> Multiplier \<Rightarrow> 32 word"
  phase_times_ratio :: "32 word \<Rightarrow> Multiplier \<Rightarrow> 8 word \<Rightarrow> 32 word"

subsection \<open>The global state\<close>

text \<open>
  The fields keep the names of the C globals. \<open>g_depth_table\<close> is the array
  \<^verbatim>\<open>uint8_t g_depth_table[256]\<close>: a function from the index to the byte stored there; the
  code reads and writes it at indices below 256 only (a byte, or a loop index with that
  bound). The flags are the bit fields of \<^verbatim>\<open>g_state\<close>. \<open>OCR0A\<close> is the PWM compare
  register, \<open>TEMPO_OUT\<close> the bit of \<^verbatim>\<open>PORTA\<close> that drives the tempo indicator, \<open>previous_sync_input\<close> the static variable of
  the pin-change handler. \<open>rng_seed\<close> and \<open>rng_calls\<close> stand for the state of the C
  library's generator: the last seed and the number of \<^verbatim>\<open>rand\<close> calls since.
  \<open>random_log\<close> is a history variable, not a variable of the program: it lists the values
  that \<^verbatim>\<open>UpdateRandomNumber\<close> has stored in \<open>g_random_number\<close>, oldest first.
\<close>

record lfo =
  g_random_number :: "8 word"
  g_base_tempo :: "16 word"
  g_base_duty_cycle :: "32 word"
  g_base_table_index :: "8 word"
  g_base_phase_accumulator :: "32 word"
  g_duty_cycle :: "32 word"
  g_table_index :: "8 word"
  g_phase_accumulator :: "32 word"
  g_multiplier_alignment_index :: "8 word"
  g_waveform :: Waveform
  g_multiplier :: Multiplier
  g_tempo_adjust_offset :: "16 word"
  g_depth_ratio :: "8 word"
  g_depth_offset :: "8 word"
  g_depth_table :: "nat \<Rightarrow> 8 word"
  is_counting_tempo :: bool
  has_received_tap_input :: bool
  has_random_seed :: bool
  is_counting_mode_reset_time :: bool
  is_resetting_mode :: bool
  g_tempo_ms_count :: "16 word"
  g_mode_reset_ms_count :: "16 word"
  g_speed_adjustment_ms_count :: "16 word"
  OCR0A :: "8 word"
  TEMPO_OUT :: bool
  previous_sync_input :: bool
  rng_seed :: "32 word"
  rng_calls :: nat
  random_log :: "8 word list"

subsection \<open>Depth scaling and the waveform table builder\<close>

text \<open>
  \<^verbatim>\<open>CalcSignalDepth\<close> returns \<^verbatim>\<open>g_depth_offset + (value * g_depth_ratio) / 100.0f\<close>
  converted to \<^verbatim>\<open>uint8_t\<close>. The product is an integer below \<open>2 ^ 24\<close>, so its conversion to
  \<^verbatim>\<open>float\<close> is exact; the quotient by 100 is either an integer or at least \<open>1/100\<close> away from
  one, much more than the rounding error of single precision at this magnitude, and the
  conversion to \<^verbatim>\<open>uint8_t\<close> truncates. The result is the floor written below. C leaves the
  conversion undefined when the sum exceeds 255, which needs a ratio above 100; the model
  wraps there.
\<close>

definition CalcSignalDepth :: "lfo \<Rightarrow> 8 word \<Rightarrow> 8 word" where
  "CalcSignalDepth s v =
    (if g_depth_ratio s = 100 then v
     else of_nat (unat (g_depth_offset s) + (unat v * unat (g_depth_ratio s)) div 100))"

text \<open>One assignment \<^verbatim>\<open>g_depth_table[i] = v\<close>.\<close>

definition store :: "lfo \<Rightarrow> nat \<Rightarrow> 8 word \<Rightarrow> lfo" where
  "store s i v = s\<lparr>g_depth_table := (g_depth_table s)(i := v)\<rparr>"

text \<open>The bodies of the four \<^verbatim>\<open>for\<close> loops that write more than one plain value.\<close>

definition sine_body :: "nat \<Rightarrow> lfo \<Rightarrow> lfo" where
  "sine_body i s =
    (let s1 = store s i (CalcSignalDepth s (k_sine_table ! i));
         s2 = store s1 (255 - i) (g_depth_table s1 i);
         s3 = store s2 (127 - i) (CalcSignalDepth s2 (255 - k_sine_table ! i));
         s4 = store s3 (128 + i) (g_depth_table s3 (127 - i))
     in s4)"

definition triangle_body :: "nat \<Rightarrow> lfo \<Rightarrow> lfo" where
  "triangle_body i s =
    (let s1 = store s i (CalcSignalDepth s (of_nat (i * 2)));
         s2 = store s1 (255 - i) (g_depth_table s1 i)
     in s2)"

definition square_body :: "nat \<Rightarrow> lfo \<Rightarrow> lfo" where
  "square_body i s =
    (if i < 0x80 then store s i (g_depth_table s 0)
     else store s i 0xff)"

definition in_quad_pulse :: "nat \<Rightarrow> bool" where
  "in_quad_pulse i \<longleftrightarrow>
    (0x00 \<le> i \<and> i < 0x10) \<or> (0x20 \<le> i \<and> i < 0x30) \<or>
    (0x40 \<le> i \<and> i < 0x50) \<or> (0x60 \<le> i \<and> i < 0x70)"

definition quad_pulse_body :: "nat \<Rightarrow> lfo \<Rightarrow> lfo" where
  "quad_pulse_body i s =
    (if in_quad_pulse i then store s i 0xff
     else store s i (g_depth_table s 0xff))"

text \<open>
  \<^verbatim>\<open>CalcDepthTable\<close>: a \<^verbatim>\<open>switch\<close> on the waveform; each loop runs its index over
  \<open>[0..<n]\<close>. A value of \<open>g_waveform\<close> that is no enumerator takes the \<^verbatim>\<open>default\<close> branch and
  leaves the table as it is.
\<close>

definition CalcDepthTable :: "lfo \<Rightarrow> lfo" where
  "CalcDepthTable s =
    (if g_waveform s = WaveformSine then
       fold sine_body [0..<WAVEFORM_RESOLUTION div 4] s
     else if g_waveform s = WaveformRampUp \<or> g_waveform s = WaveformRandom then
       fold (\<lambda>i t. store t i (CalcSignalDepth t (of_nat i))) [0..<WAVEFORM_RESOLUTION] s
     else if g_waveform s = WaveformRampDown then
       fold (\<lambda>i t. store t i (CalcSignalDepth t (of_nat (0xff - i))))
         [0..<WAVEFORM_RESOLUTION] s
     else if g_waveform s = WaveformTriangle then
       fold triangle_body [0..<WAVEFORM_RESOLUTION div 2] s
     else if g_waveform s = WaveformSquare then
       fold square_body [1..<WAVEFORM_RESOLUTION] (store s 0 (CalcSignalDepth s 0x00))
     else if g_waveform s = WaveformQuadPulse then
       fold quad_pulse_body [0..<WAVEFORM_RESOLUTION] (store s 0xff (CalcSignalDepth s 0x00))
     else s)"

subsection \<open>Tempo model (signaling.c)\<close>

definition ResetBaseTempo :: "lfo \<Rightarrow> lfo" where
  "ResetBaseTempo s = s\<lparr>g_base_table_index := 0, g_base_phase_accumulator := 0\<rparr>"

text \<open>
  \<^verbatim>\<open>RecalculateTempo\<close>: the sum \<^verbatim>\<open>g_base_tempo + g_tempo_adjust_offset\<close> is a 16-bit
  unsigned sum on this target; the floating-point steps are the platform's.
\<close>

definition RecalculateTempo :: "platform \<Rightarrow> lfo \<Rightarrow> lfo" where
  "RecalculateTempo P s =
    (let s1 = s\<lparr>g_base_duty_cycle :=
                  tempo_to_duty P (g_base_tempo s + g_tempo_adjust_offset s)\<rparr>
     in s1\<lparr>g_duty_cycle := duty_times_ratio P (g_base_duty_cycle s1) (g_multiplier s1)\<rparr>)"

definition SetBaseTempo :: "platform \<Rightarrow> 16 word \<Rightarrow> lfo \<Rightarrow> lfo" where
  "SetBaseTempo P milliseconds s =
    (if milliseconds > LFO_MIN_TEMPO \<or> milliseconds < LFO_MAX_TEMPO then s
     else if g_base_tempo s > milliseconds + 2 \<or> g_base_tempo s < milliseconds - 2 then
       RecalculateTempo P (s\<lparr>g_base_tempo := milliseconds, g_tempo_adjust_offset := 0\<rparr>)
     else s)"

text \<open>
  \<^verbatim>\<open>AlignWaveform\<close>. The table \<^verbatim>\<open>k_multiplier_alignment\<close> is read at \<open>g_multiplier\<close>; the
  setters keep that index inside the table when they are called with steps of one.
\<close>

definition AlignWaveform :: "lfo \<Rightarrow> lfo" where
  "AlignWaveform s =
    (let s1 = (if g_multiplier_alignment_index s \<ge> MULTIPLIER_ALIGNMENT_OFFSET
               then s\<lparr>g_multiplier_alignment_index := 0\<rparr> else s);
         s2 = (if unat (g_multiplier_alignment_index s1)
                    mod (k_multiplier_alignment ! nat (g_multiplier s1)) = 0
               then s1\<lparr>g_phase_accumulator := 0\<rparr> else s1)
     in s2\<lparr>g_multiplier_alignment_index := g_multiplier_alignment_index s2 + 1\<rparr>)"

definition StartTempoCount :: "lfo \<Rightarrow> lfo" where
  "StartTempoCount s =
    AlignWaveform (ResetBaseTempo (s\<lparr>g_tempo_ms_count := 0, is_counting_tempo := True\<rparr>))"

definition StopTempoCount :: "platform \<Rightarrow> lfo \<Rightarrow> lfo" where
  "StopTempoCount P s =
    (let s1 = (if is_counting_tempo s then
                 (let t = s\<lparr>is_counting_tempo := False\<rparr>;
                      t' = SetBaseTempo P (g_tempo_ms_count t) t
                  in t'\<lparr>g_tempo_ms_count := 0\<rparr>)
               else s)
     in AlignWaveform (ResetBaseTempo s1))"

definition TempoCountTimeout :: "lfo \<Rightarrow> lfo" where
  "TempoCountTimeout s = s\<lparr>is_counting_tempo := False, g_tempo_ms_count := 0\<rparr>"

definition ResetSignals :: "lfo \<Rightarrow> lfo" where
  "ResetSignals s =
    (ResetBaseTempo s)\<lparr>g_phase_accumulator := 0, g_table_index := 0,
                        g_multiplier_alignment_index := 0\<rparr>"

definition SeedRandomNumberGenerator :: "32 word \<Rightarrow> lfo \<Rightarrow> lfo" where
  "SeedRandomNumberGenerator seed s = s\<lparr>rng_seed := seed, rng_calls := 0\<rparr>"

definition UpdateRandomNumber :: "platform \<Rightarrow> lfo \<Rightarrow> lfo" where
  "UpdateRandomNumber P s =
    (let r = of_nat ((libc_rand P (rng_seed s) (rng_calls s) mod WAVEFORM_RANDOM_STEP_COUNT)
                     * WAVEFORM_STEP_SIZE)
     in s\<lparr>g_random_number := r, rng_calls := rng_calls s + 1,
          random_log := random_log s @ [r]\<rparr>)"

text \<open>The top eight bits of a phase accumulator: \<^verbatim>\<open>(acc & 0xff000000) >> 24\<close>.\<close>

definition table_index_of :: "32 word \<Rightarrow> 8 word" where
  "table_index_of acc = ucast (drop_bit 24 (acc AND 0xff000000))"

definition PlotWaveform :: "platform \<Rightarrow> lfo \<Rightarrow> lfo" where
  "PlotWaveform P s =
    (let previous_table_index = g_table_index s;
         s1 = s\<lparr>g_phase_accumulator := g_phase_accumulator s + g_duty_cycle s\<rparr>;
         s2 = s1\<lparr>g_table_index := table_index_of (g_phase_accumulator s1)\<rparr>;
         s3 = (if g_waveform s2 = WaveformRandom
               then s2\<lparr>OCR0A := g_depth_table s2 (unat (g_random_number s2))\<rparr>
               else s2\<lparr>OCR0A := g_depth_table s2 (unat (g_table_index s2))\<rparr>)
     in if previous_table_index > g_table_index s3
        then UpdateRandomNumber P (s3\<lparr>TEMPO_OUT := \<not> TEMPO_OUT s3\<rparr>)
        else s3)"

text \<open>
  \<^verbatim>\<open>AdjustSpeed\<close> stores the 16-bit sum in an \<^verbatim>\<open>int16_t\<close> and compares it as a signed
  value.
\<close>

definition AdjustSpeed :: "platform \<Rightarrow> 16 word \<Rightarrow> lfo \<Rightarrow> lfo" where
  "AdjustSpeed P change_value s =
    (let new_tempo_count = g_base_tempo s + g_tempo_adjust_offset s + change_value
     in if sint new_tempo_count > sint LFO_MIN_TEMPO \<or> sint new_tempo_count < sint LFO_MAX_TEMPO
        then s
        else RecalculateTempo P
               (s\<lparr>g_tempo_adjust_offset := g_tempo_adjust_offset s + change_value\<rparr>))"

definition ResetSpeedAdjustSetting :: "platform \<Rightarrow> lfo \<Rightarrow> lfo" where
  "ResetSpeedAdjustSetting P s = RecalculateTempo P (s\<lparr>g_tempo_adjust_offset := 0\<rparr>)"

text \<open>\<^verbatim>\<open>change_value\<close> is an \<^verbatim>\<open>int8_t\<close>: a byte read as a signed value.\<close>

definition SetWaveform :: "8 word \<Rightarrow> lfo \<Rightarrow> lfo" where
  "SetWaveform change_value s =
    CalcDepthTable
      (if g_waveform s = WaveformSine \<and> sint change_value < 0 then
         s\<lparr>g_waveform := WaveformRandom\<rparr>
       else if g_waveform s = WaveformRandom \<and> sint change_value > 0 then
         s\<lparr>g_waveform := WaveformSine\<rparr>
       else s\<lparr>g_waveform := g_waveform s + sint change_value\<rparr>)"

definition ResetWaveformSetting :: "lfo \<Rightarrow> lfo" where
  "ResetWaveformSetting s = s\<lparr>g_waveform := WaveformSine\<rparr>"

definition AdjustPhaseAccumulation :: "platform \<Rightarrow> lfo \<Rightarrow> lfo" where
  "AdjustPhaseAccumulation P s =
    s\<lparr>g_phase_accumulator :=
         phase_times_ratio P (g_base_phase_accumulator s) (g_multiplier s)
           (g_multiplier_alignment_index s)\<rparr>"

definition SetMultiplier :: "platform \<Rightarrow> 8 word \<Rightarrow> lfo \<Rightarrow> lfo" where
  "SetMultiplier P change_value s =
    (let multiplier =
           (if g_multiplier s = MultiplierWhole \<and> sint change_value < 0 then MultiplierWhole
            else if g_multiplier s = MultiplierSixteenth \<and> sint change_value > 0
            then MultiplierSixteenth
            else g_multiplier s + sint change_value)
     in if multiplier \<noteq> g_multiplier s
        then AdjustPhaseAccumulation P (RecalculateTempo P (s\<lparr>g_multiplier := multiplier\<rparr>))
        else s)"

definition ResetMultiplierSetting :: "platform \<Rightarrow> lfo \<Rightarrow> lfo" where
  "ResetMultiplierSetting P s =
    (if g_multiplier s \<noteq> MultiplierQuarter
     then AdjustPhaseAccumulation P (RecalculateTempo P (s\<lparr>g_multiplier := MultiplierQuarter\<rparr>))
     else s)"

text \<open>
  \<^verbatim>\<open>g_depth_offset = 255.0f * (100 - g_depth_ratio) / 100.0f\<close>: for a ratio of at most 100
  the product is an exact integer and the conversion truncates the quotient, as for
  \<^verbatim>\<open>CalcSignalDepth\<close>. Above 100 the value is negative and its conversion to \<^verbatim>\<open>uint8_t\<close> is
  undefined in C; the model gives 0 there.
\<close>

definition depth_offset_of :: "8 word \<Rightarrow> 8 word" where
  "depth_offset_of ratio =
    (if ratio \<le> 100 then of_nat ((255 * (100 - unat ratio)) div 100) else 0)"

text \<open>
  \<^verbatim>\<open>SetDepth\<close>: \<^verbatim>\<open>g_depth_ratio + change_value * 5\<close> is computed in \<^verbatim>\<open>int\<close> and stored in a
  \<^verbatim>\<open>uint8_t\<close>, which is the sum modulo 256.
\<close>

definition SetDepth :: "8 word \<Rightarrow> lfo \<Rightarrow> lfo" where
  "SetDepth change_value s =
    (let step = (5 \<le> g_depth_ratio s \<and> g_depth_ratio s \<le> 95)
                \<or> (sint change_value > 0 \<and> g_depth_ratio s = 0)
                \<or> (sint change_value < 0 \<and> g_depth_ratio s = 100);
         s1 = (if step then s\<lparr>g_depth_ratio := g_depth_ratio s + change_value * 5\<rparr> else s);
         updateDepthTable = step;
         s2 = s1\<lparr>g_depth_offset := depth_offset_of (g_depth_ratio s1)\<rparr>
     in if updateDepthTable then CalcDepthTable s2 else s2)"

definition ResetDepthSetting :: "lfo \<Rightarrow> lfo" where
  "ResetDepthSetting s = CalcDepthTable (s\<lparr>g_depth_ratio := 100, g_depth_offset := 0\<rparr>)"

subsection \<open>Interrupt handlers and main loop (main.c)\<close>

text \<open>
  Modelled from the spec: the mode collaborator (\<^verbatim>\<open>ResetCurrentSelectionMode\<close>,
  \<^verbatim>\<open>ModifyCurrentSelectionMode\<close>, \<^verbatim>\<open>SetNextSelectionMode\<close>) is not among the sources. The
  specification names the four parameters it selects among and the operations of the core
  that it calls; which parameter is selected is its own state, so the model takes the
  selection as an input of the event.
\<close>

datatype selection = SelectWaveform | SelectMultiplier | SelectDepth | SelectSpeed

definition ResetCurrentSelectionMode :: "platform \<Rightarrow> selection \<Rightarrow> lfo \<Rightarrow> lfo" where
  "ResetCurrentSelectionMode P sel s =
    (case sel of
       SelectWaveform \<Rightarrow> ResetWaveformSetting s
     | SelectMultiplier \<Rightarrow> ResetMultiplierSetting P s
     | SelectDepth \<Rightarrow> ResetDepthSetting s
     | SelectSpeed \<Rightarrow> ResetSpeedAdjustSetting P s)"

text \<open>
  The values of the globals when \<^verbatim>\<open>main\<close> starts: zero unless the declaration gives an
  initialiser. \<^verbatim>\<open>PORTA = 0xff\<close> drives the indicator high. A C library generator that was
  never seeded behaves as after \<^verbatim>\<open>srand(1)\<close>.
\<close>

definition startup :: lfo where
  "startup =
    \<lparr>g_random_number = 0, g_base_tempo = 0, g_base_duty_cycle = 0,
     g_base_table_index = 0xff, g_base_phase_accumulator = 0, g_duty_cycle = 0,
     g_table_index = 0, g_phase_accumulator = 0, g_multiplier_alignment_index = 0,
     g_waveform = WaveformSine, g_multiplier = MultiplierQuarter, g_tempo_adjust_offset = 0,
     g_depth_ratio = 100, g_depth_offset = 0, g_depth_table = (\<lambda>i. 0),
     is_counting_tempo = False, has_received_tap_input = False, has_random_seed = False,
     is_counting_mode_reset_time = False, is_resetting_mode = False,
     g_tempo_ms_count = 0, g_mode_reset_ms_count = 0, g_speed_adjustment_ms_count = 0,
     OCR0A = 0, TEMPO_OUT = True, previous_sync_input = False,
     rng_seed = 1, rng_calls = 0, random_log = []\<rparr>"

text \<open>
  The part of \<^verbatim>\<open>main\<close> before the loop, as far as it touches the state above: the
  seeding, the first refresh and the default tempo. The register set-up and
  \<^verbatim>\<open>InitializeSwitching\<close> of the switch collaborator are outside the model.
\<close>

definition main_init :: "platform \<Rightarrow> lfo" where
  "main_init P =
    SetBaseTempo P DEFAULT_TEMPO (UpdateRandomNumber P (SeedRandomNumberGenerator 0 startup))"

text \<open>
  The body of the main loop when \<^verbatim>\<open>SwitchWasClosed(1 << TAP_IN)\<close> holds: the atomic block,
  then the seeding block. In the program the seeding block is outside the atomic block, so
  a timer interrupt can run between the two; an event of the model runs to completion.
\<close>

definition tap_switch_closed :: "platform \<Rightarrow> lfo \<Rightarrow> lfo" where
  "tap_switch_closed P s =
    (let s1 = (if \<not> is_counting_tempo s then StartTempoCount (ResetSignals s)
               else (StopTempoCount P (ResetSignals s))\<lparr>has_received_tap_input := True\<rparr>)
     in if \<not> has_random_seed s1 then
          (if \<not> has_received_tap_input s1 then
             UpdateRandomNumber P
               (SeedRandomNumberGenerator (ucast (g_tempo_ms_count s1))
                  (s1\<lparr>has_random_seed := True\<rparr>))
           else s1)
        else s1)"

definition mode_switch_closed :: "lfo \<Rightarrow> lfo" where
  "mode_switch_closed s = s\<lparr>is_counting_mode_reset_time := True\<rparr>"

text \<open>
  The mode switch. \<^verbatim>\<open>SetNextSelectionMode\<close>, called on a short press, changes the state of
  the mode collaborator only.
\<close>

definition mode_switch_opened :: "lfo \<Rightarrow> lfo" where
  "mode_switch_opened s =
    (if is_resetting_mode s then s\<lparr>is_resetting_mode := False\<rparr>
     else s\<lparr>is_counting_mode_reset_time := False, g_mode_reset_ms_count := 0\<rparr>)"

text \<open>\<^verbatim>\<open>ISR(TIM0_OVF_vect)\<close>, the sample tick.\<close>

definition TIM0_OVF :: "platform \<Rightarrow> lfo \<Rightarrow> lfo" where
  "TIM0_OVF P s =
    (let s1 = s\<lparr>g_base_phase_accumulator := g_base_phase_accumulator s + g_base_duty_cycle s\<rparr>;
         s2 = s1\<lparr>g_base_table_index := table_index_of (g_base_phase_accumulator s1)\<rparr>
     in PlotWaveform P s2)"

text \<open>
  \<^verbatim>\<open>ISR(TIM1_COMPA_vect)\<close>, the 1 kHz tick, after its call of \<^verbatim>\<open>DebounceSwitches\<close>.
  \<open>sel\<close> is the parameter that the mode collaborator has selected, used when the hold time
  is reached.
\<close>

definition TIM1_COMPA :: "platform \<Rightarrow> selection \<Rightarrow> lfo \<Rightarrow> lfo" where
  "TIM1_COMPA P sel s =
    (let s1 = (if is_counting_tempo s then
                 (let t = s\<lparr>g_tempo_ms_count := g_tempo_ms_count s + 1\<rparr>
                  in if g_tempo_ms_count t > LFO_MIN_TEMPO then TempoCountTimeout t else t)
               else s);
         s2 = (if is_counting_mode_reset_time s1 then
                 (let t = s1\<lparr>g_mode_reset_ms_count := g_mode_reset_ms_count s1 + 1\<rparr>
                  in if g_mode_reset_ms_count t \<ge> MODE_RESET_MIN_TIME then
                       ResetCurrentSelectionMode P sel
                         (t\<lparr>is_resetting_mode := True, is_counting_mode_reset_time := False,
                            g_mode_reset_ms_count := 0\<rparr>)
                     else t)
               else s1)
     in if g_speed_adjustment_ms_count s2 < 0xffff
        then s2\<lparr>g_speed_adjustment_ms_count := g_speed_adjustment_ms_count s2 + 1\<rparr>
        else s2)"

text \<open>\<^verbatim>\<open>ISR(PCINT1_vect)\<close>, the sync input; \<open>sync_input\<close> is the level of the pin.\<close>

definition PCINT1 :: "platform \<Rightarrow> bool \<Rightarrow> lfo \<Rightarrow> lfo" where
  "PCINT1 P sync_input s =
    (if sync_input \<noteq> previous_sync_input s then
       (let s1 = s\<lparr>previous_sync_input := sync_input\<rparr>
        in if sync_input then StopTempoCount P s1 else StartTempoCount s1)
     else s)"

subsection \<open>Runs\<close>

text \<open>
  An event is one handler or one main-loop action, run to completion. The encoder handler
  calls \<^verbatim>\<open>ModifyCurrentSelectionMode\<close> with \<open>1\<close> or \<open>-1\<close>, which reaches one of the four
  setters of the core; for the speed trim the collaborator chooses the amount.
\<close>

datatype direction = Forward | Backward

definition change_value_of :: "direction \<Rightarrow> 8 word" where
  "change_value_of d = (case d of Forward \<Rightarrow> 1 | Backward \<Rightarrow> - 1)"

datatype event =
    SampleTick
  | MsTick selection
  | TapSwitchClosed
  | ModeSwitchClosed
  | ModeSwitchOpened
  | SyncInput bool
  | CallSetWaveform direction
  | CallSetMultiplier direction
  | CallSetDepth direction
  | CallAdjustSpeed "16 word"
  | CallReset selection

fun step :: "platform \<Rightarrow> event \<Rightarrow> lfo \<Rightarrow> lfo" where
  "step P SampleTick s = TIM0_OVF P s"
| "step P (MsTick sel) s = TIM1_COMPA P sel s"
| "step P TapSwitchClosed s = tap_switch_closed P s"
| "step P ModeSwitchClosed s = mode_switch_closed s"
| "step P ModeSwitchOpened s = mode_switch_opened s"
| "step P (SyncInput level) s = PCINT1 P level s"
| "step P (CallSetWaveform d) s = SetWaveform (change_value_of d) s"
| "step P (CallSetMultiplier d) s = SetMultiplier P (change_value_of d) s"
| "step P (CallSetDepth d) s = SetDepth (change_value_of d) s"
| "step P (CallAdjustSpeed n) s = AdjustSpeed P n s"
| "step P (CallReset sel) s = ResetCurrentSelectionMode P sel s"

definition run :: "platform \<Rightarrow> event list \<Rightarrow> lfo \<Rightarrow> lfo" where
  "run P es s = fold (step P) es s"

text \<open>
  An instance of the platform for evaluating the model on concrete inputs: exact rational
  arithmetic, truncated, in place of single precision (the divisor is
  \<open>2 ^ 32 div 31250 = 137438\<close> for an 8 MHz clock), and a small linear congruential
  generator in place of the C library's.
\<close>

definition ratio_num :: "nat list" where
  "ratio_num = [1, 1, 1, 2, 1, 4, 2, 8, 3, 4]"

definition ratio_den :: "nat list" where
  "ratio_den = [4, 3, 2, 3, 1, 3, 1, 3, 1, 1]"

fun lcg :: "nat \<Rightarrow> nat \<Rightarrow> nat" where
  "lcg x 0 = (x * 75 + 74) mod 65537"
| "lcg x (Suc n) = lcg ((x * 75 + 74) mod 65537) n"

definition ideal_platform :: platform where
  "ideal_platform =
    \<lparr>libc_rand = (\<lambda>seed n. lcg (unat seed) n mod 32768),
     tempo_to_duty = (\<lambda>t. if t = 0 then 0 else of_nat ((1000 * 137438) div unat t)),
     duty_times_ratio =
       (\<lambda>d m. of_nat ((unat d * (ratio_num ! nat m)) div (ratio_den ! nat m))),
     phase_times_ratio =
       (\<lambda>p m k. of_nat ((unat p * (ratio_num ! nat m) * unat k) div (ratio_den ! nat m)))\<rparr>"

subsection \<open>The waveform shapes of the specification\<close>

text \<open>
  The shapes as the specification words them (section 4.1), each over the index
  \<open>i \<in> [0, 255]\<close>, before depth scaling. The table builder above is compared with this
  definition.
\<close>

definition WaveformSample :: "Waveform \<Rightarrow> nat \<Rightarrow> 8 word" where
  "WaveformSample w i =
    (if w = WaveformSine then
       (if i < 64 then k_sine_table ! i
        else if i < 128 then 255 - k_sine_table ! (127 - i)
        else if i < 192 then 255 - k_sine_table ! (i - 128)
        else k_sine_table ! (255 - i))
     else if w = WaveformRampUp \<or> w = WaveformRandom then of_nat i
     else if w = WaveformRampDown then of_nat (255 - i)
     else if w = WaveformTriangle then
       (if i < 128 then of_nat (i * 2) else of_nat ((255 - i) * 2))
     else if w = WaveformSquare then (if i < 128 then 0 else 255)
     else if w = WaveformQuadPulse then (if in_quad_pulse i then 255 else 0)
     else 0)"

text \<open>The entries that the Sine and Triangle loops have written after \<open>n\<close> rounds.\<close>

definition sine_written :: "nat \<Rightarrow> nat \<Rightarrow> bool" where
  "sine_written n k \<longleftrightarrow>
     k < n \<or> (255 - n < k \<and> k \<le> 255) \<or> (127 - n < k \<and> k \<le> 127) \<or> (128 \<le> k \<and> k < 128 + n)"

definition triangle_written :: "nat \<Rightarrow> nat \<Rightarrow> bool" where
  "triangle_written n k \<longleftrightarrow> k < n \<or> (255 - n < k \<and> k \<le> 255)"

text \<open>
  What \<^verbatim>\<open>CalcDepthTable\<close> leaves in the table, entry by entry: the scaled shape, except
  that the high entries of Square and QuadPulse are the constant \<^verbatim>\<open>0xff\<close> of the source.
  The lemma \<open>CalcDepthTable_eq\<close> below proves that the loops compute it.
\<close>

definition rebuilt :: "lfo \<Rightarrow> nat \<Rightarrow> 8 word" where
  "rebuilt s k =
    (if 256 \<le> k \<or> g_waveform s < 0 \<or> WaveformCount \<le> g_waveform s then g_depth_table s k
     else if g_waveform s = WaveformSquare \<or> g_waveform s = WaveformQuadPulse then
       (if WaveformSample (g_waveform s) k = 255 then 255 else CalcSignalDepth s 0)
     else CalcSignalDepth s (WaveformSample (g_waveform s) k))"

subsection \<open>Event sequences used as concrete inputs\<close>

text \<open>Four steps of the waveform selection from Sine lead to Square.\<close>

definition select_square :: "event list" where
  "select_square =
    [CallSetWaveform Forward, CallSetWaveform Forward, CallSetWaveform Forward,
     CallSetWaveform Forward]"

text \<open>Square, then one step of depth down from 100 to 95.\<close>

definition square_at_depth_95 :: "event list" where
  "square_at_depth_95 = select_square @ [CallSetDepth Backward]"

text \<open>
  Eighth notes (two multiplier steps up from Quarter), then 15625 sample ticks: half of a
  base cycle at the initial tempo of 1000 ms.
\<close>

definition eighth_note_ticks :: "event list" where
  "eighth_note_ticks =
    [CallSetMultiplier Forward, CallSetMultiplier Forward] @ replicate 15625 SampleTick"

text \<open>
  Dotted quarter notes (one multiplier step down from Quarter), then 31250 sample ticks:
  one tick short of a whole base cycle at the initial tempo.
\<close>

definition dotted_quarter_ticks :: "event list" where
  "dotted_quarter_ticks = [CallSetMultiplier Backward] @ replicate 31250 SampleTick"

text \<open>One closing of the tap switch; and two closings 500 ms apart.\<close>

definition first_tap :: "event list" where
  "first_tap = [TapSwitchClosed]"

definition tap_pair_500 :: "event list" where
  "tap_pair_500 = first_tap @ replicate 500 (MsTick SelectWaveform) @ [TapSwitchClosed]"

text \<open>Six pulses on the sync input: twelve edges.\<close>

definition twelve_sync_edges :: "event list" where
  "twelve_sync_edges = concat (replicate 6 [SyncInput True, SyncInput False])"

subsection \<open>The random sequence after a seed of 0\<close>

text \<open>
  \<open>random_level_of P k\<close> is the value that refresh number \<open>k\<close> stores when the generator
  was last seeded with 0. A state is \<open>seeded_with_zero\<close> when that was the last seed and
  every stored value so far is the one of its position.
\<close>

definition random_level_of :: "platform \<Rightarrow> nat \<Rightarrow> 8 word" where
  "random_level_of P k =
     of_nat ((libc_rand P 0 k mod WAVEFORM_RANDOM_STEP_COUNT) * WAVEFORM_STEP_SIZE)"

definition seeded_with_zero :: "platform \<Rightarrow> lfo \<Rightarrow> bool" where
  "seeded_with_zero P s \<longleftrightarrow>
     rng_seed s = 0 \<and> random_log s = map (random_level_of P) [0..<rng_calls s]"

section \<open>The table builder\<close>

lemma store_table: "store (s\<lparr>g_depth_table := T\<rparr>) i v = s\<lparr>g_depth_table := T(i := v)\<rparr>"
  by (simp add: store_def)

lemma CalcSignalDepth_table:
  "CalcSignalDepth (s\<lparr>g_depth_table := T\<rparr>) v = CalcSignalDepth s v"
  by (simp add: CalcSignalDepth_def)

text \<open>A loop that stores one scaled value per index (RampUp, Random, RampDown).\<close>

lemma plain_loop:
  "fold (\<lambda>i t. store t i (CalcSignalDepth t (g i))) [0..<n] s =
   s\<lparr>g_depth_table := (\<lambda>k. if k < n then CalcSignalDepth s (g k) else g_depth_table s k)\<rparr>"
  (is "_ = s\<lparr>g_depth_table := ?T n\<rparr>")
proof (induction n)
  case 0
  show ?case by simp
next
  case (Suc n)
  have tab: "(?T n)(n := CalcSignalDepth s (g n)) = ?T (Suc n)"
    by (auto simp: fun_eq_iff)
  from Suc show ?case
    by (simp add: store_table CalcSignalDepth_table tab)
qed

lemma sine_written_Suc:
  "n < 64 \<Longrightarrow>
   sine_written (Suc n) k \<longleftrightarrow>
   sine_written n k \<or> k = n \<or> k = 255 - n \<or> k = 127 - n \<or> k = 128 + n"
  unfolding sine_written_def by arith

lemma sine_sample_at:
  assumes "n < 64"
  shows "WaveformSample WaveformSine n = k_sine_table ! n"
    and "WaveformSample WaveformSine (255 - n) = k_sine_table ! n"
    and "WaveformSample WaveformSine (127 - n) = 255 - k_sine_table ! n"
    and "WaveformSample WaveformSine (128 + n) = 255 - k_sine_table ! n"
proof -
  from assms show "WaveformSample WaveformSine n = k_sine_table ! n"
    by (simp add: WaveformSample_def)
  from assms have "\<not> 255 - n < 192" by arith
  moreover from assms have "255 - (255 - n) = n" by arith
  ultimately show "WaveformSample WaveformSine (255 - n) = k_sine_table ! n"
    by (simp add: WaveformSample_def)
  from assms have "\<not> 127 - n < 64" "127 - n < 128" "127 - (127 - n) = n" by arith+
  then show "WaveformSample WaveformSine (127 - n) = 255 - k_sine_table ! n"
    by (simp add: WaveformSample_def)
  from assms have "\<not> 128 + n < 128" "128 + n < 192" by arith+
  then show "WaveformSample WaveformSine (128 + n) = 255 - k_sine_table ! n"
    by (simp add: WaveformSample_def)
qed

lemma sine_loop:
  "n \<le> 64 \<Longrightarrow>
   fold sine_body [0..<n] s =
   s\<lparr>g_depth_table :=
       (\<lambda>k. if sine_written n k then CalcSignalDepth s (WaveformSample WaveformSine k)
            else g_depth_table s k)\<rparr>"
  (is "_ \<Longrightarrow> _ = s\<lparr>g_depth_table := ?T n\<rparr>")
proof (induction n)
  case 0
  have "?T 0 = g_depth_table s"
    by (auto simp: fun_eq_iff sine_written_def)
  then show ?case by simp
next
  case (Suc n)
  then have n: "n < 64" by simp
  let ?a = "CalcSignalDepth s (k_sine_table ! n)"
  let ?b = "CalcSignalDepth s (255 - k_sine_table ! n)"
  from n have dist: "n \<noteq> 255 - n" "n \<noteq> 127 - n" "255 - n \<noteq> 127 - n"
    "255 - n \<noteq> 128 + n" "127 - n \<noteq> 128 + n"
    by arith+
  have tab: "(?T n)(n := ?a, 255 - n := ?a, 127 - n := ?b, 128 + n := ?b) = ?T (Suc n)"
  proof
    fix k
    show "((?T n)(n := ?a, 255 - n := ?a, 127 - n := ?b, 128 + n := ?b)) k = ?T (Suc n) k"
      using dist sine_sample_at [OF n]
      by (simp add: sine_written_Suc [OF n])
  qed
  from Suc have IH: "fold sine_body [0..<n] s = s\<lparr>g_depth_table := ?T n\<rparr>"
    by simp
  have "fold sine_body [0..<Suc n] s = sine_body n (fold sine_body [0..<n] s)" by simp
  also have "\<dots> = sine_body n (s\<lparr>g_depth_table := ?T n\<rparr>)" by (simp only: IH)
  also have "\<dots> =
      s\<lparr>g_depth_table := (?T n)(n := ?a, 255 - n := ?a, 127 - n := ?b, 128 + n := ?b)\<rparr>"
    by (simp add: sine_body_def Let_def store_table CalcSignalDepth_table)
  finally show ?case by (simp only: tab)
qed

lemma triangle_written_Suc:
  "n < 128 \<Longrightarrow> triangle_written (Suc n) k \<longleftrightarrow> triangle_written n k \<or> k = n \<or> k = 255 - n"
  unfolding triangle_written_def by arith

lemma triangle_sample_at:
  assumes "n < 128"
  shows "WaveformSample WaveformTriangle n = of_nat (n * 2)"
    and "WaveformSample WaveformTriangle (255 - n) = of_nat (n * 2)"
proof -
  from assms show "WaveformSample WaveformTriangle n = of_nat (n * 2)"
    by (simp add: WaveformSample_def)
  from assms have "\<not> 255 - n < 128" "255 - (255 - n) = n" by arith+
  then show "WaveformSample WaveformTriangle (255 - n) = of_nat (n * 2)"
    by (simp add: WaveformSample_def)
qed

lemma triangle_loop:
  "n \<le> 128 \<Longrightarrow>
   fold triangle_body [0..<n] s =
   s\<lparr>g_depth_table :=
       (\<lambda>k. if triangle_written n k then CalcSignalDepth s (WaveformSample WaveformTriangle k)
            else g_depth_table s k)\<rparr>"
  (is "_ \<Longrightarrow> _ = s\<lparr>g_depth_table := ?T n\<rparr>")
proof (induction n)
  case 0
  have "?T 0 = g_depth_table s"
    by (auto simp: fun_eq_iff triangle_written_def)
  then show ?case by simp
next
  case (Suc n)
  then have n: "n < 128" by simp
  let ?a = "CalcSignalDepth s (of_nat (n * 2))"
  from n have dist: "n \<noteq> 255 - n" by arith
  have tab: "(?T n)(n := ?a, 255 - n := ?a) = ?T (Suc n)"
  proof
    fix k
    show "((?T n)(n := ?a, 255 - n := ?a)) k = ?T (Suc n) k"
      using dist triangle_sample_at [OF n]
      by (simp add: triangle_written_Suc [OF n] del: of_nat_mult)
  qed
  from Suc have IH: "fold triangle_body [0..<n] s = s\<lparr>g_depth_table := ?T n\<rparr>"
    by simp
  have "fold triangle_body [0..<Suc n] s = triangle_body n (fold triangle_body [0..<n] s)"
    by simp
  also have "\<dots> = triangle_body n (s\<lparr>g_depth_table := ?T n\<rparr>)" by (simp only: IH)
  also have "\<dots> = s\<lparr>g_depth_table := (?T n)(n := ?a, 255 - n := ?a)\<rparr>"
    by (simp add: triangle_body_def Let_def store_table CalcSignalDepth_table del: of_nat_mult)
  finally show ?case by (simp only: tab)
qed

lemma square_loop:
  "fold square_body [1..<n] s =
   s\<lparr>g_depth_table :=
       (\<lambda>k. if 1 \<le> k \<and> k < n then (if k < 128 then g_depth_table s 0 else 255)
            else g_depth_table s k)\<rparr>"
  (is "_ = s\<lparr>g_depth_table := ?T n\<rparr>")
proof (induction n)
  case 0
  show ?case by simp
next
  case (Suc n)
  show ?case
  proof (cases "1 \<le> n")
    case False
    then have n0: "n = 0" by simp
    have "?T (Suc 0) = g_depth_table s"
      by (auto simp: fun_eq_iff)
    with n0 show ?thesis by simp
  next
    case True
    have tab: "(?T n)(n := (if n < 128 then g_depth_table s 0 else 255)) = ?T (Suc n)"
      using True by (auto simp: fun_eq_iff)
    have "fold square_body [1..<Suc n] s = square_body n (fold square_body [1..<n] s)"
      using True by simp
    also have "\<dots> = square_body n (s\<lparr>g_depth_table := ?T n\<rparr>)"
      by (simp only: Suc)
    also have "\<dots> =
        s\<lparr>g_depth_table := (?T n)(n := (if n < 128 then g_depth_table s 0 else 255))\<rparr>"
      using True by (simp add: square_body_def store_table)
    finally show ?thesis by (simp only: tab)
  qed
qed

lemma quad_pulse_loop:
  "n \<le> 256 \<Longrightarrow>
   fold quad_pulse_body [0..<n] s =
   s\<lparr>g_depth_table :=
       (\<lambda>k. if k < n then (if in_quad_pulse k then 255 else g_depth_table s 0xff)
            else g_depth_table s k)\<rparr>"
  (is "_ \<Longrightarrow> _ = s\<lparr>g_depth_table := ?T n\<rparr>")
proof (induction n)
  case 0
  show ?case by simp
next
  case (Suc n)
  then have n: "n < 256" by simp
  from Suc have IH: "fold quad_pulse_body [0..<n] s = s\<lparr>g_depth_table := ?T n\<rparr>"
    by simp
  have tab: "(?T n)(n := (if in_quad_pulse n then 255 else g_depth_table s 0xff)) = ?T (Suc n)"
    by (auto simp: fun_eq_iff)
  have "fold quad_pulse_body [0..<Suc n] s = quad_pulse_body n (fold quad_pulse_body [0..<n] s)"
    by simp
  also have "\<dots> = quad_pulse_body n (s\<lparr>g_depth_table := ?T n\<rparr>)"
    by (simp only: IH)
  also have "\<dots> =
      s\<lparr>g_depth_table :=
          (?T n)(n := (if in_quad_pulse n then 255 else g_depth_table s 0xff))\<rparr>"
    using n by (simp add: quad_pulse_body_def store_table)
  finally show ?case by (simp only: tab)
qed

lemma sine_written_all: "sine_written 64 k \<longleftrightarrow> k < 256"
  unfolding sine_written_def by arith

lemma triangle_written_all: "triangle_written 128 k \<longleftrightarrow> k < 256"
  unfolding triangle_written_def by arith

lemma waveform_cases:
  fixes w :: int
  assumes "0 \<le> w" "w < 7"
  obtains "w = 0" | "w = 1" | "w = 2" | "w = 3" | "w = 4" | "w = 5" | "w = 6"
  using assms by arith

text \<open>The whole effect of \<^verbatim>\<open>CalcDepthTable\<close> on the state.\<close>

lemma CalcDepthTable_eq: "CalcDepthTable s = s\<lparr>g_depth_table := rebuilt s\<rparr>"
proof (cases "0 \<le> g_waveform s \<and> g_waveform s < 7")
  case False
  then have "CalcDepthTable s = s" by (auto simp: CalcDepthTable_def)
  moreover from False have "rebuilt s = g_depth_table s"
    by (auto simp: rebuilt_def fun_eq_iff)
  ultimately show ?thesis by simp
next
  case True
  then have "0 \<le> g_waveform s" "g_waveform s < 7" by simp_all
  then show ?thesis
  proof (cases rule: waveform_cases)
    case 1
    then have "rebuilt s =
        (\<lambda>k. if sine_written 64 k then CalcSignalDepth s (WaveformSample WaveformSine k)
             else g_depth_table s k)"
      by (auto simp: rebuilt_def fun_eq_iff sine_written_all)
    with 1 show ?thesis
      by (simp add: CalcDepthTable_def WAVEFORM_RESOLUTION_def sine_loop)
  next
    case 2
    then have "rebuilt s =
        (\<lambda>k. if k < 256 then CalcSignalDepth s (of_nat k) else g_depth_table s k)"
      by (auto simp: rebuilt_def fun_eq_iff WaveformSample_def)
    with 2 show ?thesis
      by (simp add: CalcDepthTable_def WAVEFORM_RESOLUTION_def plain_loop)
  next
    case 3
    then have "rebuilt s =
        (\<lambda>k. if k < 256 then CalcSignalDepth s (of_nat (255 - k)) else g_depth_table s k)"
      by (auto simp: rebuilt_def fun_eq_iff WaveformSample_def simp del: of_nat_diff)
    with 3 show ?thesis
      by (simp add: CalcDepthTable_def WAVEFORM_RESOLUTION_def plain_loop del: of_nat_diff)
  next
    case 4
    then have "rebuilt s =
        (\<lambda>k. if triangle_written 128 k
             then CalcSignalDepth s (WaveformSample WaveformTriangle k)
             else g_depth_table s k)"
      by (auto simp: rebuilt_def fun_eq_iff triangle_written_all)
    with 4 show ?thesis
      by (simp add: CalcDepthTable_def WAVEFORM_RESOLUTION_def triangle_loop)
  next
    case 5
    let ?s0 = "store s 0 (CalcSignalDepth s 0)"
    have s0: "?s0 = s\<lparr>g_depth_table := (g_depth_table s)(0 := CalcSignalDepth s 0)\<rparr>"
      by (simp add: store_def)
    have "fold square_body [1..<256] ?s0 = s\<lparr>g_depth_table := rebuilt s\<rparr>"
      unfolding square_loop s0 using 5
      by (auto simp: rebuilt_def fun_eq_iff WaveformSample_def)
    with 5 show ?thesis
      by (simp add: CalcDepthTable_def WAVEFORM_RESOLUTION_def)
  next
    case 6
    let ?s0 = "store s 0xff (CalcSignalDepth s 0)"
    have s0: "?s0 = s\<lparr>g_depth_table := (g_depth_table s)(0xff := CalcSignalDepth s 0)\<rparr>"
      by (simp add: store_def)
    have q: "\<not> in_quad_pulse 255" by (simp add: in_quad_pulse_def)
    have "fold quad_pulse_body [0..<256] ?s0 = s\<lparr>g_depth_table := rebuilt s\<rparr>"
      unfolding s0 using 6 q
      by (auto simp: quad_pulse_loop rebuilt_def fun_eq_iff WaveformSample_def)
    with 6 show ?thesis
      by (simp add: CalcDepthTable_def WAVEFORM_RESOLUTION_def)
  next
    case 7
    then have "rebuilt s =
        (\<lambda>k. if k < 256 then CalcSignalDepth s (of_nat k) else g_depth_table s k)"
      by (auto simp: rebuilt_def fun_eq_iff WaveformSample_def)
    with 7 show ?thesis
      by (simp add: CalcDepthTable_def WAVEFORM_RESOLUTION_def plain_loop)
  qed
qed

lemma CalcDepthTable_fields:
  "g_waveform (CalcDepthTable s) = g_waveform s"
  "g_depth_ratio (CalcDepthTable s) = g_depth_ratio s"
  "g_depth_offset (CalcDepthTable s) = g_depth_offset s"
  by (simp_all add: CalcDepthTable_eq)

lemma main_init_depth:
  "g_waveform (main_init P) = WaveformSine"
  "g_depth_ratio (main_init P) = 100"
  "g_depth_offset (main_init P) = 0"
  by (simp_all add: main_init_def SetBaseTempo_def RecalculateTempo_def Let_def
        UpdateRandomNumber_def SeedRandomNumberGenerator_def startup_def)

lemma SetWaveform_fields:
  "g_waveform (SetWaveform c s) =
     (if g_waveform s = WaveformSine \<and> sint c < 0 then WaveformRandom
      else if g_waveform s = WaveformRandom \<and> sint c > 0 then WaveformSine
      else g_waveform s + sint c)"
  "g_depth_ratio (SetWaveform c s) = g_depth_ratio s"
  "g_depth_offset (SetWaveform c s) = g_depth_offset s"
  by (simp_all add: SetWaveform_def CalcDepthTable_fields)

lemma SetWaveform_forward:
  "g_waveform s \<noteq> WaveformRandom \<Longrightarrow> SetWaveform 1 s =
     s\<lparr>g_waveform := g_waveform s + 1,
       g_depth_table := rebuilt (s\<lparr>g_waveform := g_waveform s + 1\<rparr>)\<rparr>"
  by (simp add: SetWaveform_def CalcDepthTable_eq)

lemma SetDepth_fields:
  "g_waveform (SetDepth c s) = g_waveform s"
  "g_depth_ratio (SetDepth c s) =
     (if (5 \<le> g_depth_ratio s \<and> g_depth_ratio s \<le> 95)
         \<or> (sint c > 0 \<and> g_depth_ratio s = 0) \<or> (sint c < 0 \<and> g_depth_ratio s = 100)
      then g_depth_ratio s + c * 5 else g_depth_ratio s)"
  "g_depth_offset (SetDepth c s) = depth_offset_of (g_depth_ratio (SetDepth c s))"
  by (simp_all add: SetDepth_def Let_def CalcDepthTable_fields)

lemma SetDepth_table:
  "(5 \<le> g_depth_ratio s \<and> g_depth_ratio s \<le> 95) \<or> (sint c > 0 \<and> g_depth_ratio s = 0)
     \<or> (sint c < 0 \<and> g_depth_ratio s = 100) \<Longrightarrow>
   g_depth_table (SetDepth c s) =
   rebuilt (s\<lparr>g_depth_ratio := g_depth_ratio s + c * 5,
              g_depth_offset := depth_offset_of (g_depth_ratio s + c * 5)\<rparr>)"
  by (simp add: SetDepth_def Let_def CalcDepthTable_eq)

text \<open>The state after \<open>select_square\<close>, as far as the table builder reads it.\<close>

lemma select_square_state:
  "g_waveform (run P select_square (main_init P)) = WaveformSquare"
  "g_depth_ratio (run P select_square (main_init P)) = 100"
  "g_depth_offset (run P select_square (main_init P)) = 0"
  by (simp_all add: run_def select_square_def change_value_of_def SetWaveform_fields
        main_init_depth)

lemma select_square_table:
  "k < 128 \<Longrightarrow> g_depth_table (run P select_square (main_init P)) k = 0"
proof -
  let ?s = "run P [CallSetWaveform Forward, CallSetWaveform Forward, CallSetWaveform Forward]
              (main_init P)"
  assume k: "k < 128"
  have w: "g_waveform ?s = WaveformTriangle" and r: "g_depth_ratio ?s = 100"
    by (simp_all add: run_def change_value_of_def SetWaveform_fields main_init_depth)
  have "run P select_square (main_init P) = SetWaveform 1 ?s"
    by (simp add: run_def select_square_def change_value_of_def)
  also have "\<dots> = ?s\<lparr>g_waveform := WaveformSquare,
                     g_depth_table := rebuilt (?s\<lparr>g_waveform := WaveformSquare\<rparr>)\<rparr>"
    using w by (simp add: SetWaveform_forward)
  finally show ?thesis
    using k r by (simp add: rebuilt_def WaveformSample_def CalcSignalDepth_def)
qed

section \<open>Claims\<close>

subsection \<open>Depth table entries\<close>

text \<open>
  C2, as the code has it. After a rebuild by \<^verbatim>\<open>CalcDepthTable\<close>, for every waveform and
  every index below 256, the entry is \<^verbatim>\<open>CalcSignalDepth\<close> of the raw shape value at that
  index, with one exception: in Square and QuadPulse the entries whose raw shape value is
  255 hold the raw 255, whatever the depth ratio is. (The low entries of these two
  waveforms hold \<^verbatim>\<open>CalcSignalDepth(0)\<close>.)
\<close>

theorem CalcDepthTable_entries:
  assumes "k < 256" and "0 \<le> g_waveform s" and "g_waveform s < WaveformCount"
  shows "g_depth_table (CalcDepthTable s) k =
    (if (g_waveform s = WaveformSquare \<or> g_waveform s = WaveformQuadPulse)
        \<and> WaveformSample (g_waveform s) k = 255
     then 255
     else CalcSignalDepth s (WaveformSample (g_waveform s) k))"
  using assms by (auto simp: CalcDepthTable_eq rebuilt_def WaveformSample_def)

text \<open>
  The theorem at index 200 of Sine and at index 128 of Square, both at a depth ratio of 95
  with its offset 12.
\<close>

theorem CalcDepthTable_entries_witness:
  "(200 :: nat) < 256
   \<and> 0 \<le> g_waveform (startup\<lparr>g_depth_ratio := 95, g_depth_offset := 12\<rparr>)
   \<and> g_waveform (startup\<lparr>g_depth_ratio := 95, g_depth_offset := 12\<rparr>) < WaveformCount
   \<and> g_depth_table (CalcDepthTable (startup\<lparr>g_depth_ratio := 95, g_depth_offset := 12\<rparr>)) 200
       = 107
   \<and> g_depth_table
        (CalcDepthTable
          (startup\<lparr>g_waveform := WaveformSquare, g_depth_ratio := 95, g_depth_offset := 12\<rparr>))
        128 = 255"
  using CalcDepthTable_entries [of 200 "startup\<lparr>g_depth_ratio := 95, g_depth_offset := 12\<rparr>"]
    CalcDepthTable_entries
      [of 128 "startup\<lparr>g_waveform := WaveformSquare, g_depth_ratio := 95, g_depth_offset := 12\<rparr>"]
  by (simp add: startup_def WaveformSample_def CalcSignalDepth_def k_sine_table_def)

text \<open>
  C2 as stated fails. After four waveform steps and one depth step from the initial state
  the waveform is Square and the ratio 95; entry 128 of the rebuilt table is the raw 255,
  and \<^verbatim>\<open>CalcSignalDepth\<close> of the raw shape value 255 is 254.
\<close>

theorem CalcDepthTable_entries_counterexample:
  "g_depth_ratio (run ideal_platform square_at_depth_95 (main_init ideal_platform)) = 95
   \<and> g_depth_table (run ideal_platform square_at_depth_95 (main_init ideal_platform)) 128 = 255
   \<and> CalcSignalDepth (run ideal_platform square_at_depth_95 (main_init ideal_platform))
        (WaveformSample WaveformSquare 128) = 254"
proof -
  let ?s = "run ideal_platform select_square (main_init ideal_platform)"
  have s: "run ideal_platform square_at_depth_95 (main_init ideal_platform) = SetDepth (- 1) ?s"
    by (simp add: run_def square_at_depth_95_def change_value_of_def)
  note st = select_square_state [of ideal_platform]
  have "g_depth_ratio (SetDepth (- 1) ?s) = 95"
    using st by (simp add: SetDepth_fields)
  moreover have "g_depth_table (SetDepth (- 1) ?s) 128 = 255"
    using st by (simp add: SetDepth_table rebuilt_def WaveformSample_def)
  moreover have "CalcSignalDepth (SetDepth (- 1) ?s) (WaveformSample WaveformSquare 128) = 254"
    using st
    by (simp add: CalcSignalDepth_def SetDepth_fields WaveformSample_def depth_offset_of_def)
  ultimately show ?thesis by (simp only: s)
qed

subsection \<open>Resetting the waveform\<close>

text \<open>
  C4 on the code. \<^verbatim>\<open>ResetWaveformSetting\<close> assigns \<open>g_waveform\<close> and does not call
  \<^verbatim>\<open>CalcDepthTable\<close>, unlike \<^verbatim>\<open>SetWaveform\<close> and \<^verbatim>\<open>ResetDepthSetting\<close>. With Square
  selected from the initial state, the reset leaves the waveform at Sine and the table as
  Square's: entry 64 stays 0, where a rebuild for Sine would store 131.
\<close>

theorem ResetWaveformSetting_stale_table:
  "g_waveform (ResetWaveformSetting (run ideal_platform select_square (main_init ideal_platform)))
     = WaveformSine
   \<and> g_depth_table
        (ResetWaveformSetting (run ideal_platform select_square (main_init ideal_platform)))
     = g_depth_table (run ideal_platform select_square (main_init ideal_platform))
   \<and> g_depth_table
        (ResetWaveformSetting (run ideal_platform select_square (main_init ideal_platform))) 64
     = 0
   \<and> g_depth_table
        (CalcDepthTable
          (ResetWaveformSetting (run ideal_platform select_square (main_init ideal_platform))))
        64
     = 131"
proof -
  let ?s = "run ideal_platform select_square (main_init ideal_platform)"
  note st = select_square_state [of ideal_platform]
  have "g_depth_table (ResetWaveformSetting ?s) 64 = 0"
    by (simp add: ResetWaveformSetting_def select_square_table)
  moreover have "g_depth_table (CalcDepthTable (ResetWaveformSetting ?s)) 64 = 131"
    using st
    by (simp add: CalcDepthTable_eq rebuilt_def ResetWaveformSetting_def WaveformSample_def
          CalcSignalDepth_def k_sine_table_def)
  ultimately show ?thesis by (simp add: ResetWaveformSetting_def)
qed

subsection \<open>The random levels\<close>

lemma random_level: "m < 8 \<Longrightarrow> (of_nat (m * 31) :: 8 word) \<in> {0, 31, 62, 93, 124, 155, 186, 217}"
proof -
  assume "m < 8"
  then have "m = 0 \<or> m = 1 \<or> m = 2 \<or> m = 3 \<or> m = 4 \<or> m = 5 \<or> m = 6 \<or> m = 7" by arith
  then show ?thesis by auto
qed

lemma ideal_rand_0: "libc_rand ideal_platform 0 0 = 74"
  by (simp add: ideal_platform_def)

lemma main_init_random:
  "g_random_number (main_init P) = of_nat ((libc_rand P 0 0 mod 8) * 31)"
  "rng_seed (main_init P) = 0"
  "rng_calls (main_init P) = 1"
  "random_log (main_init P) = [of_nat ((libc_rand P 0 0 mod 8) * 31)]"
  by (simp_all add: main_init_def SetBaseTempo_def RecalculateTempo_def Let_def
        UpdateRandomNumber_def SeedRandomNumberGenerator_def startup_def
        WAVEFORM_RANDOM_STEP_COUNT_def WAVEFORM_STEP_SIZE_def del: of_nat_mult)

text \<open>
  C5, as the code has it. Every refresh by \<^verbatim>\<open>UpdateRandomNumber\<close> stores
  \<^verbatim>\<open>(rand() % 8) * (0xff / 8)\<close>, and \<^verbatim>\<open>0xff / 8\<close> is 31: the value is \<open>k * 31\<close> for the
  \<open>k\<close> in \<open>0..7\<close> that the generator gives, one of 0, 31, 62, 93, 124, 155, 186, 217.
\<close>

theorem UpdateRandomNumber_levels:
  "g_random_number (UpdateRandomNumber P s)
     = of_nat ((libc_rand P (rng_seed s) (rng_calls s) mod 8) * 31)
   \<and> g_random_number (UpdateRandomNumber P s) \<in> {0, 31, 62, 93, 124, 155, 186, 217}"
proof -
  have v: "g_random_number (UpdateRandomNumber P s)
      = of_nat ((libc_rand P (rng_seed s) (rng_calls s) mod 8) * 31)"
    by (simp add: UpdateRandomNumber_def Let_def WAVEFORM_RANDOM_STEP_COUNT_def
          WAVEFORM_STEP_SIZE_def del: of_nat_mult)
  have "libc_rand P (rng_seed s) (rng_calls s) mod 8 < 8" by simp
  from random_level [OF this] v show ?thesis by simp
qed

text \<open>
  C5 as stated fails: the refresh in \<^verbatim>\<open>main\<close>, with a \<^verbatim>\<open>rand()\<close> result of 74, stores
  \<open>2 * 31 = 62\<close>, which is no multiple of 32.
\<close>

theorem UpdateRandomNumber_levels_counterexample:
  "g_random_number (main_init ideal_platform) = 62
   \<and> (62 :: 8 word) \<notin> {0, 32, 64, 96, 128, 160, 192, 224}"
  by (simp add: main_init_random ideal_rand_0)

subsection \<open>Depth steps\<close>

lemma SetDepth_up:
  assumes "unat (g_depth_ratio s) mod 5 = 0" and "unat (g_depth_ratio s) \<le> 95"
  shows "unat (g_depth_ratio (SetDepth 1 s)) = unat (g_depth_ratio s) + 5"
proof -
  from assms have "unat (g_depth_ratio s) = 0 \<or> 5 \<le> unat (g_depth_ratio s)" by presburger
  with assms have "g_depth_ratio s = 0 \<or> (5 \<le> g_depth_ratio s \<and> g_depth_ratio s \<le> 95)"
    by (auto simp: word_le_nat_alt unat_eq_0)
  then have "g_depth_ratio (SetDepth 1 s) = g_depth_ratio s + 5"
    by (auto simp: SetDepth_fields)
  with assms show ?thesis by (simp add: unat_word_ariths)
qed

lemma SetDepth_down:
  assumes "unat (g_depth_ratio s) mod 5 = 0" and "unat (g_depth_ratio s) \<le> 100"
    and "5 \<le> unat (g_depth_ratio s)"
  shows "unat (g_depth_ratio (SetDepth (- 1) s)) = unat (g_depth_ratio s) - 5"
proof -
  from assms have "unat (g_depth_ratio s) = 100 \<or> unat (g_depth_ratio s) \<le> 95" by presburger
  moreover have "unat (g_depth_ratio s) = 100 \<Longrightarrow> g_depth_ratio s = 100"
    by (simp add: word_unat_eq_iff)
  ultimately have "g_depth_ratio s = 100 \<or> (5 \<le> g_depth_ratio s \<and> g_depth_ratio s \<le> 95)"
    using assms by (auto simp: word_le_nat_alt)
  then have "g_depth_ratio (SetDepth (- 1) s) = g_depth_ratio s - 5"
    by (auto simp: SetDepth_fields)
  moreover from assms have "5 \<le> g_depth_ratio s" by (simp add: word_le_nat_alt)
  ultimately show ?thesis by (simp add: unat_sub)
qed

lemma SetDepth_up_iter:
  "unat (g_depth_ratio s) mod 5 = 0 \<Longrightarrow> unat (g_depth_ratio s) + 5 * k \<le> 100 \<Longrightarrow>
   unat (g_depth_ratio ((SetDepth 1 ^^ k) s)) = unat (g_depth_ratio s) + 5 * k"
proof (induction k)
  case 0
  show ?case by simp
next
  case (Suc k)
  then have IH: "unat (g_depth_ratio ((SetDepth 1 ^^ k) s)) = unat (g_depth_ratio s) + 5 * k"
    by simp
  with Suc.prems have "unat (g_depth_ratio ((SetDepth 1 ^^ k) s)) mod 5 = 0"
    and "unat (g_depth_ratio ((SetDepth 1 ^^ k) s)) \<le> 95"
    by simp_all
  from SetDepth_up [OF this] IH show ?case by simp
qed

lemma SetDepth_down_iter:
  "unat (g_depth_ratio s) mod 5 = 0 \<Longrightarrow> unat (g_depth_ratio s) \<le> 100 \<Longrightarrow>
   5 * k \<le> unat (g_depth_ratio s) \<Longrightarrow>
   unat (g_depth_ratio ((SetDepth (- 1) ^^ k) s)) = unat (g_depth_ratio s) - 5 * k"
proof (induction k)
  case 0
  show ?case by simp
next
  case (Suc k)
  then have IH: "unat (g_depth_ratio ((SetDepth (- 1) ^^ k) s)) = unat (g_depth_ratio s) - 5 * k"
    by simp
  with Suc.prems have "unat (g_depth_ratio ((SetDepth (- 1) ^^ k) s)) mod 5 = 0"
    and "unat (g_depth_ratio ((SetDepth (- 1) ^^ k) s)) \<le> 100"
    and "5 \<le> unat (g_depth_ratio ((SetDepth (- 1) ^^ k) s))"
    by presburger+
  from SetDepth_down [OF this] IH show ?case by simp
qed

text \<open>
  C7, as the code has it. For a depth ratio in \<open>{0, 5, \<dots>, 100}\<close> and a count \<open>k\<close>:
  \<open>k\<close> steps up followed by \<open>k\<close> steps down restore the ratio when the steps up stay
  within 100 (\<open>ratio + 5 k \<le> 100\<close>), and \<open>k\<close> steps down followed by \<open>k\<close> steps up restore
  it when the steps down stay within 0 (\<open>5 k \<le> ratio\<close>).
\<close>

theorem SetDepth_round_trip:
  assumes "unat (g_depth_ratio s) mod 5 = 0" and "unat (g_depth_ratio s) \<le> 100"
  shows "(unat (g_depth_ratio s) + 5 * k \<le> 100 \<longrightarrow>
            g_depth_ratio ((SetDepth (- 1) ^^ k) ((SetDepth 1 ^^ k) s)) = g_depth_ratio s)
       \<and> (5 * k \<le> unat (g_depth_ratio s) \<longrightarrow>
            g_depth_ratio ((SetDepth 1 ^^ k) ((SetDepth (- 1) ^^ k) s)) = g_depth_ratio s)"
proof (intro conjI impI)
  assume k: "unat (g_depth_ratio s) + 5 * k \<le> 100"
  let ?t = "(SetDepth 1 ^^ k) s"
  from SetDepth_up_iter [OF assms(1) k]
  have up: "unat (g_depth_ratio ?t) = unat (g_depth_ratio s) + 5 * k" .
  with assms k have "unat (g_depth_ratio ?t) mod 5 = 0" "unat (g_depth_ratio ?t) \<le> 100"
    "5 * k \<le> unat (g_depth_ratio ?t)"
    by simp_all
  from SetDepth_down_iter [OF this] up
  have "unat (g_depth_ratio ((SetDepth (- 1) ^^ k) ?t)) = unat (g_depth_ratio s)" by simp
  then show "g_depth_ratio ((SetDepth (- 1) ^^ k) ?t) = g_depth_ratio s"
    by (simp add: word_unat_eq_iff)
next
  assume k: "5 * k \<le> unat (g_depth_ratio s)"
  let ?t = "(SetDepth (- 1) ^^ k) s"
  from SetDepth_down_iter [OF assms k]
  have down: "unat (g_depth_ratio ?t) = unat (g_depth_ratio s) - 5 * k" .
  with assms k have "unat (g_depth_ratio ?t) mod 5 = 0"
    "unat (g_depth_ratio ?t) + 5 * k \<le> 100"
    by presburger+
  from SetDepth_up_iter [OF this] down k
  have "unat (g_depth_ratio ((SetDepth 1 ^^ k) ?t)) = unat (g_depth_ratio s)" by simp
  then show "g_depth_ratio ((SetDepth 1 ^^ k) ?t) = g_depth_ratio s"
    by (simp add: word_unat_eq_iff)
qed

text \<open>The theorem at ratio 50, reached by ten steps down from the initial state, and \<open>k = 3\<close>.\<close>

theorem SetDepth_round_trip_witness:
  "unat (g_depth_ratio ((SetDepth (- 1) ^^ 10) (main_init ideal_platform))) mod 5 = 0
   \<and> unat (g_depth_ratio ((SetDepth (- 1) ^^ 10) (main_init ideal_platform))) \<le> 100
   \<and> unat (g_depth_ratio ((SetDepth (- 1) ^^ 10) (main_init ideal_platform))) + 5 * 3 \<le> 100
   \<and> 5 * 3 \<le> unat (g_depth_ratio ((SetDepth (- 1) ^^ 10) (main_init ideal_platform)))
   \<and> g_depth_ratio
        ((SetDepth (- 1) ^^ 3) ((SetDepth 1 ^^ 3)
          ((SetDepth (- 1) ^^ 10) (main_init ideal_platform)))) = 50
   \<and> g_depth_ratio
        ((SetDepth 1 ^^ 3) ((SetDepth (- 1) ^^ 3)
          ((SetDepth (- 1) ^^ 10) (main_init ideal_platform)))) = 50"
proof -
  let ?s = "(SetDepth (- 1) ^^ 10) (main_init ideal_platform)"
  have "unat (g_depth_ratio ?s) = 50"
    using SetDepth_down_iter [of "main_init ideal_platform" 10]
    by (simp add: main_init_depth)
  moreover from this have "g_depth_ratio ?s = 50"
    by (simp add: word_unat_eq_iff)
  ultimately show ?thesis
    using SetDepth_round_trip [of ?s 3] by simp
qed

text \<open>
  C7 as stated fails at the initial ratio 100: the step up is clamped, the step down is not,
  and the ratio ends at 95.
\<close>

theorem SetDepth_round_trip_counterexample:
  "g_depth_ratio (main_init ideal_platform) = 100
   \<and> g_depth_ratio ((SetDepth (- 1) ^^ 1) ((SetDepth 1 ^^ 1) (main_init ideal_platform))) = 95"
  by (simp add: SetDepth_fields main_init_depth)

subsection \<open>Setting the base tempo\<close>

lemma main_init_tempo:
  "g_base_tempo (main_init P) = 1000"
  "g_tempo_adjust_offset (main_init P) = 0"
  "g_multiplier (main_init P) = MultiplierQuarter"
  "g_base_duty_cycle (main_init P) = tempo_to_duty P 1000"
  "g_duty_cycle (main_init P) = duty_times_ratio P (tempo_to_duty P 1000) MultiplierQuarter"
  by (simp_all add: main_init_def SetBaseTempo_def RecalculateTempo_def Let_def
        UpdateRandomNumber_def SeedRandomNumberGenerator_def startup_def
        LFO_MIN_TEMPO_def LFO_MAX_TEMPO_def DEFAULT_TEMPO_def)

lemma SetBaseTempo_commit:
  "\<not> (ms > LFO_MIN_TEMPO \<or> ms < LFO_MAX_TEMPO) \<Longrightarrow>
   g_base_tempo s > ms + 2 \<or> g_base_tempo s < ms - 2 \<Longrightarrow>
   SetBaseTempo P ms s =
     s\<lparr>g_base_tempo := ms, g_tempo_adjust_offset := 0,
       g_base_duty_cycle := tempo_to_duty P ms,
       g_duty_cycle := duty_times_ratio P (tempo_to_duty P ms) (g_multiplier s)\<rparr>"
  by (simp add: SetBaseTempo_def RecalculateTempo_def Let_def)

lemma SetBaseTempo_skip:
  "\<not> (g_base_tempo s > ms + 2 \<or> g_base_tempo s < ms - 2) \<Longrightarrow> SetBaseTempo P ms s = s"
  by (simp add: SetBaseTempo_def)

text \<open>
  C8, as the code has it. \<^verbatim>\<open>SetBaseTempo(ms)\<close> leaves the whole state unchanged for every
  \<open>ms\<close> above \<^verbatim>\<open>LFO_MIN_TEMPO\<close> or below \<^verbatim>\<open>LFO_MAX_TEMPO\<close>. The two endpoints pass the
  boundary test: an endpoint more than 2 away from the base tempo is committed. A call
  either changes nothing or commits \<open>ms\<close>, and the committed base tempo lies in the range.
\<close>

theorem SetBaseTempo_range:
  "(ms > LFO_MIN_TEMPO \<or> ms < LFO_MAX_TEMPO \<longrightarrow> SetBaseTempo P ms s = s)
   \<and> ((ms = LFO_MAX_TEMPO \<or> ms = LFO_MIN_TEMPO)
        \<and> (g_base_tempo s > ms + 2 \<or> g_base_tempo s < ms - 2) \<longrightarrow>
      g_base_tempo (SetBaseTempo P ms s) = ms
      \<and> g_tempo_adjust_offset (SetBaseTempo P ms s) = 0)
   \<and> (SetBaseTempo P ms s = s
      \<or> (g_base_tempo (SetBaseTempo P ms s) = ms
         \<and> LFO_MAX_TEMPO \<le> g_base_tempo (SetBaseTempo P ms s)
         \<and> g_base_tempo (SetBaseTempo P ms s) \<le> LFO_MIN_TEMPO))"
proof (intro conjI impI)
  assume "ms > LFO_MIN_TEMPO \<or> ms < LFO_MAX_TEMPO"
  then show "SetBaseTempo P ms s = s" by (simp add: SetBaseTempo_def)
next
  assume a: "(ms = LFO_MAX_TEMPO \<or> ms = LFO_MIN_TEMPO)
      \<and> (g_base_tempo s > ms + 2 \<or> g_base_tempo s < ms - 2)"
  then have "\<not> (ms > LFO_MIN_TEMPO \<or> ms < LFO_MAX_TEMPO)"
    by (auto simp: LFO_MIN_TEMPO_def LFO_MAX_TEMPO_def)
  from SetBaseTempo_commit [OF this] a
  show "g_base_tempo (SetBaseTempo P ms s) = ms"
    and "g_tempo_adjust_offset (SetBaseTempo P ms s) = 0"
    by simp_all
next
  show "SetBaseTempo P ms s = s
      \<or> (g_base_tempo (SetBaseTempo P ms s) = ms
         \<and> LFO_MAX_TEMPO \<le> g_base_tempo (SetBaseTempo P ms s)
         \<and> g_base_tempo (SetBaseTempo P ms s) \<le> LFO_MIN_TEMPO)"
    by (auto simp: SetBaseTempo_def RecalculateTempo_def Let_def)
qed

text \<open>The theorem at 49 ms (rejected) and at the endpoint 50 ms (committed), from the initial state.\<close>

theorem SetBaseTempo_range_witness:
  "((49 :: 16 word) > LFO_MIN_TEMPO \<or> (49 :: 16 word) < LFO_MAX_TEMPO)
   \<and> SetBaseTempo ideal_platform 49 (main_init ideal_platform) = main_init ideal_platform
   \<and> g_base_tempo (main_init ideal_platform) > LFO_MAX_TEMPO + 2
   \<and> g_base_tempo (SetBaseTempo ideal_platform LFO_MAX_TEMPO (main_init ideal_platform))
       = LFO_MAX_TEMPO
   \<and> g_tempo_adjust_offset
        (SetBaseTempo ideal_platform LFO_MAX_TEMPO (main_init ideal_platform)) = 0
   \<and> LFO_MAX_TEMPO
       \<le> g_base_tempo (SetBaseTempo ideal_platform LFO_MAX_TEMPO (main_init ideal_platform))
   \<and> g_base_tempo (SetBaseTempo ideal_platform LFO_MAX_TEMPO (main_init ideal_platform))
       \<le> LFO_MIN_TEMPO"
  using SetBaseTempo_range [of 49 ideal_platform "main_init ideal_platform"]
    SetBaseTempo_range [of LFO_MAX_TEMPO ideal_platform "main_init ideal_platform"]
  by (simp add: main_init_tempo LFO_MIN_TEMPO_def LFO_MAX_TEMPO_def)

text \<open>
  C8 as stated fails: from the initial base tempo of 1000 ms, both endpoints are accepted
  and become the base tempo.
\<close>

theorem SetBaseTempo_range_counterexample:
  "g_base_tempo (main_init ideal_platform) = 1000
   \<and> g_base_tempo (SetBaseTempo ideal_platform LFO_MAX_TEMPO (main_init ideal_platform)) = 50
   \<and> g_base_tempo (SetBaseTempo ideal_platform LFO_MIN_TEMPO (main_init ideal_platform)) = 10000"
  by (simp add: SetBaseTempo_def RecalculateTempo_def Let_def main_init_tempo
        LFO_MIN_TEMPO_def LFO_MAX_TEMPO_def)

lemma in_range_no_wrap:
  assumes "LFO_MAX_TEMPO \<le> ms" and "ms \<le> LFO_MIN_TEMPO"
  shows "uint (ms + 2) = uint ms + 2" and "uint (ms - 2) = uint ms - 2"
proof -
  from assms have b: "50 \<le> uint ms" "uint ms \<le> 10000"
    by (simp_all add: LFO_MIN_TEMPO_def LFO_MAX_TEMPO_def word_le_def)
  from b show "uint (ms + 2) = uint ms + 2"
    by (simp add: uint_word_ariths)
  from b show "uint (ms - 2) = uint ms - 2"
    by (simp add: uint_word_ariths)
qed

text \<open>
  C9. For \<open>ms\<close> in the range: when \<open>ms\<close> differs from the base tempo by at most 2 the call
  returns the state unchanged; when it differs by 3 or more the call stores \<open>ms\<close>, clears
  the trim offset and recomputes both duty cycles from \<open>ms\<close> and the multiplier.
\<close>

theorem SetBaseTempo_hysteresis:
  assumes "LFO_MAX_TEMPO \<le> ms" and "ms \<le> LFO_MIN_TEMPO"
  shows "(\<bar>uint ms - uint (g_base_tempo s)\<bar> \<le> 2 \<longrightarrow> SetBaseTempo P ms s = s)
       \<and> (\<bar>uint ms - uint (g_base_tempo s)\<bar> \<ge> 3 \<longrightarrow>
            SetBaseTempo P ms s =
              s\<lparr>g_base_tempo := ms, g_tempo_adjust_offset := 0,
                g_base_duty_cycle := tempo_to_duty P ms,
                g_duty_cycle := duty_times_ratio P (tempo_to_duty P ms) (g_multiplier s)\<rparr>)"
proof (intro conjI impI)
  note nw = in_range_no_wrap [OF assms]
  assume "\<bar>uint ms - uint (g_base_tempo s)\<bar> \<le> 2"
  with nw have "\<not> (g_base_tempo s > ms + 2 \<or> g_base_tempo s < ms - 2)"
    by (simp add: word_less_def) arith
  then show "SetBaseTempo P ms s = s" by (rule SetBaseTempo_skip)
next
  note nw = in_range_no_wrap [OF assms]
  assume "\<bar>uint ms - uint (g_base_tempo s)\<bar> \<ge> 3"
  with nw have "g_base_tempo s > ms + 2 \<or> g_base_tempo s < ms - 2"
    by (simp add: word_less_def) arith
  moreover from assms have "\<not> (ms > LFO_MIN_TEMPO \<or> ms < LFO_MAX_TEMPO)"
    by (simp add: not_less)
  ultimately show "SetBaseTempo P ms s =
              s\<lparr>g_base_tempo := ms, g_tempo_adjust_offset := 0,
                g_base_duty_cycle := tempo_to_duty P ms,
                g_duty_cycle := duty_times_ratio P (tempo_to_duty P ms) (g_multiplier s)\<rparr>"
    by (simp add: SetBaseTempo_commit)
qed

lemma tempo_500:
  "g_base_tempo (SetBaseTempo P 500 (main_init P)) = 500"
  by (simp add: SetBaseTempo_def RecalculateTempo_def Let_def main_init_tempo
        LFO_MIN_TEMPO_def LFO_MAX_TEMPO_def)

text \<open>The example of the claim: base tempo 500; 501 changes nothing, 503 is committed.\<close>

theorem SetBaseTempo_hysteresis_witness:
  "LFO_MAX_TEMPO \<le> (501 :: 16 word) \<and> (501 :: 16 word) \<le> LFO_MIN_TEMPO
   \<and> LFO_MAX_TEMPO \<le> (503 :: 16 word) \<and> (503 :: 16 word) \<le> LFO_MIN_TEMPO
   \<and> g_base_tempo (SetBaseTempo ideal_platform 500 (main_init ideal_platform)) = 500
   \<and> SetBaseTempo ideal_platform 501 (SetBaseTempo ideal_platform 500 (main_init ideal_platform))
       = SetBaseTempo ideal_platform 500 (main_init ideal_platform)
   \<and> g_base_tempo
        (SetBaseTempo ideal_platform 503
          (SetBaseTempo ideal_platform 500 (main_init ideal_platform))) = 503
   \<and> g_tempo_adjust_offset
        (SetBaseTempo ideal_platform 503
          (SetBaseTempo ideal_platform 500 (main_init ideal_platform))) = 0
   \<and> g_base_duty_cycle
        (SetBaseTempo ideal_platform 503
          (SetBaseTempo ideal_platform 500 (main_init ideal_platform)))
       = tempo_to_duty ideal_platform 503"
  using
    SetBaseTempo_hysteresis
      [of 501 "SetBaseTempo ideal_platform 500 (main_init ideal_platform)" ideal_platform]
    SetBaseTempo_hysteresis
      [of 503 "SetBaseTempo ideal_platform 500 (main_init ideal_platform)" ideal_platform]
  by (simp add: tempo_500 LFO_MIN_TEMPO_def LFO_MAX_TEMPO_def)


section \<open>Runs\<close>

lemma run_Nil: "run P [] s = s"
  by (simp add: run_def)

lemma run_Cons: "run P (e # es) s = run P es (step P e s)"
  by (simp add: run_def)

lemma run_append: "run P (xs @ ys) s = run P ys (run P xs s)"
  by (simp add: run_def)

subsection \<open>The tempo indicator\<close>

lemma TIM0_OVF_fields:
  "g_phase_accumulator (TIM0_OVF P s) = g_phase_accumulator s + g_duty_cycle s"
  "g_base_phase_accumulator (TIM0_OVF P s) = g_base_phase_accumulator s + g_base_duty_cycle s"
  "g_duty_cycle (TIM0_OVF P s) = g_duty_cycle s"
  "g_base_duty_cycle (TIM0_OVF P s) = g_base_duty_cycle s"
  "g_multiplier (TIM0_OVF P s) = g_multiplier s"
  "g_table_index (TIM0_OVF P s) = table_index_of (g_phase_accumulator s + g_duty_cycle s)"
  "g_base_table_index (TIM0_OVF P s)
     = table_index_of (g_base_phase_accumulator s + g_base_duty_cycle s)"
  "TEMPO_OUT (TIM0_OVF P s)
     = (if table_index_of (g_phase_accumulator s + g_duty_cycle s) < g_table_index s
        then \<not> TEMPO_OUT s else TEMPO_OUT s)"
  by (simp_all add: TIM0_OVF_def PlotWaveform_def UpdateRandomNumber_def Let_def)

text \<open>
  One sample tick. The working table index becomes the top eight bits of the working phase
  accumulator advanced by the working duty cycle, and the tempo indicator toggles on this
  tick exactly when the new index is below the previous one. Within the tick the base
  phase and the base duty cycle do not enter: with any other values of the two the
  indicator after the tick is the same.
\<close>

lemma sample_tick_toggle:
  "g_table_index (TIM0_OVF P s) = table_index_of (g_phase_accumulator s + g_duty_cycle s)
   \<and> (TEMPO_OUT (TIM0_OVF P s) \<noteq> TEMPO_OUT s
        \<longleftrightarrow> g_table_index (TIM0_OVF P s) < g_table_index s)
   \<and> TEMPO_OUT (TIM0_OVF P (s\<lparr>g_base_phase_accumulator := b, g_base_duty_cycle := d\<rparr>))
       = TEMPO_OUT (TIM0_OVF P s)"
proof -
  let ?new = "table_index_of (g_phase_accumulator s + g_duty_cycle s)"
  have idx: "g_table_index (TIM0_OVF P s) = ?new"
    by (simp add: TIM0_OVF_def PlotWaveform_def UpdateRandomNumber_def Let_def)
  have toggle: "TEMPO_OUT (TIM0_OVF P s) \<noteq> TEMPO_OUT s \<longleftrightarrow> ?new < g_table_index s"
  proof (cases "?new < g_table_index s")
    case True
    then have "TEMPO_OUT (TIM0_OVF P s) = (\<not> TEMPO_OUT s)"
      by (simp add: TIM0_OVF_def PlotWaveform_def UpdateRandomNumber_def Let_def)
    with True show ?thesis by simp
  next
    case False
    then have "TEMPO_OUT (TIM0_OVF P s) = TEMPO_OUT s"
      by (simp add: TIM0_OVF_def PlotWaveform_def UpdateRandomNumber_def Let_def)
    with False show ?thesis by simp
  qed
  let ?s' = "s\<lparr>g_base_phase_accumulator := b, g_base_duty_cycle := d\<rparr>"
  have base: "TEMPO_OUT (TIM0_OVF P ?s') = TEMPO_OUT (TIM0_OVF P s)"
    by (simp add: TIM0_OVF_def PlotWaveform_def UpdateRandomNumber_def Let_def)
  from idx toggle base show ?thesis by simp
qed

lemma sample_ticks:
  "g_phase_accumulator (run P (replicate n SampleTick) s)
     = g_phase_accumulator s + of_nat n * g_duty_cycle s
   \<and> g_base_phase_accumulator (run P (replicate n SampleTick) s)
     = g_base_phase_accumulator s + of_nat n * g_base_duty_cycle s
   \<and> g_duty_cycle (run P (replicate n SampleTick) s) = g_duty_cycle s
   \<and> g_base_duty_cycle (run P (replicate n SampleTick) s) = g_base_duty_cycle s
   \<and> g_multiplier (run P (replicate n SampleTick) s) = g_multiplier s"
proof (induction n arbitrary: s)
  case 0
  show ?case by (simp add: run_Nil)
next
  case (Suc n)
  from Suc [of "TIM0_OVF P s"] show ?case
    by (simp add: run_Cons TIM0_OVF_fields algebra_simps)
qed

lemma sample_ticks_index:
  "g_table_index (run P (replicate (Suc n) SampleTick) s)
     = table_index_of (g_phase_accumulator s + of_nat (Suc n) * g_duty_cycle s)
   \<and> g_base_table_index (run P (replicate (Suc n) SampleTick) s)
     = table_index_of (g_base_phase_accumulator s + of_nat (Suc n) * g_base_duty_cycle s)"
proof -
  have "replicate (Suc n) SampleTick = replicate n SampleTick @ [SampleTick]"
    by (simp add: replicate_append_same)
  then have "run P (replicate (Suc n) SampleTick) s
      = TIM0_OVF P (run P (replicate n SampleTick) s)"
    by (simp only: run_append run_Cons run_Nil step.simps)
  with sample_ticks [where P = P and n = n and s = s] show ?thesis
    by (simp add: TIM0_OVF_fields algebra_simps)
qed

lemma SetMultiplier_forward:
  "g_multiplier s \<noteq> MultiplierSixteenth \<Longrightarrow>
   SetMultiplier P 1 s =
     s\<lparr>g_multiplier := g_multiplier s + 1,
       g_base_duty_cycle := tempo_to_duty P (g_base_tempo s + g_tempo_adjust_offset s),
       g_duty_cycle :=
         duty_times_ratio P (tempo_to_duty P (g_base_tempo s + g_tempo_adjust_offset s))
           (g_multiplier s + 1),
       g_phase_accumulator :=
         phase_times_ratio P (g_base_phase_accumulator s) (g_multiplier s + 1)
           (g_multiplier_alignment_index s)\<rparr>"
  by (simp add: SetMultiplier_def RecalculateTempo_def AdjustPhaseAccumulation_def Let_def)

lemma SetMultiplier_backward:
  "g_multiplier s \<noteq> MultiplierWhole \<Longrightarrow>
   SetMultiplier P (- 1) s =
     s\<lparr>g_multiplier := g_multiplier s - 1,
       g_base_duty_cycle := tempo_to_duty P (g_base_tempo s + g_tempo_adjust_offset s),
       g_duty_cycle :=
         duty_times_ratio P (tempo_to_duty P (g_base_tempo s + g_tempo_adjust_offset s))
           (g_multiplier s - 1),
       g_phase_accumulator :=
         phase_times_ratio P (g_base_phase_accumulator s) (g_multiplier s - 1)
           (g_multiplier_alignment_index s)\<rparr>"
  by (simp add: SetMultiplier_def RecalculateTempo_def AdjustPhaseAccumulation_def Let_def)

lemma main_init_phase:
  "g_phase_accumulator (main_init P) = 0"
  "g_base_phase_accumulator (main_init P) = 0"
  "g_multiplier_alignment_index (main_init P) = 0"
  by (simp_all add: main_init_def SetBaseTempo_def RecalculateTempo_def Let_def
        UpdateRandomNumber_def SeedRandomNumberGenerator_def startup_def)

lemma ideal_duty:
  "tempo_to_duty ideal_platform 1000 = 137438"
  "duty_times_ratio ideal_platform 137438 MultiplierEighth = 274876"
  "duty_times_ratio ideal_platform 137438 MultiplierDottedQuarter = 91625"
  "phase_times_ratio ideal_platform 0 m k = 0"
  by (simp_all add: ideal_platform_def ratio_num_def ratio_den_def)

lemma eighth_note_start:
  "g_multiplier (run ideal_platform [CallSetMultiplier Forward, CallSetMultiplier Forward]
      (main_init ideal_platform)) = MultiplierEighth"
  "g_base_duty_cycle (run ideal_platform [CallSetMultiplier Forward, CallSetMultiplier Forward]
      (main_init ideal_platform)) = 137438"
  "g_duty_cycle (run ideal_platform [CallSetMultiplier Forward, CallSetMultiplier Forward]
      (main_init ideal_platform)) = 274876"
  "g_phase_accumulator (run ideal_platform [CallSetMultiplier Forward, CallSetMultiplier Forward]
      (main_init ideal_platform)) = 0"
  "g_base_phase_accumulator
     (run ideal_platform [CallSetMultiplier Forward, CallSetMultiplier Forward]
      (main_init ideal_platform)) = 0"
proof -
  let ?P = ideal_platform
  let ?a = "SetMultiplier ?P 1 (main_init ?P)"
  have a: "?a = (main_init ?P)\<lparr>g_multiplier := MultiplierDottedEighth,
       g_base_duty_cycle := 137438,
       g_duty_cycle := duty_times_ratio ?P 137438 MultiplierDottedEighth,
       g_phase_accumulator := 0\<rparr>"
    by (simp add: SetMultiplier_forward main_init_tempo main_init_phase ideal_duty)
  have b: "SetMultiplier ?P 1 ?a = (main_init ?P)\<lparr>g_multiplier := MultiplierEighth,
       g_base_duty_cycle := 137438, g_duty_cycle := 274876, g_phase_accumulator := 0\<rparr>"
    unfolding a
    by (simp add: SetMultiplier_forward main_init_tempo main_init_phase ideal_duty)
  have r: "run ?P [CallSetMultiplier Forward, CallSetMultiplier Forward] (main_init ?P)
      = SetMultiplier ?P 1 ?a"
    by (simp add: run_Cons run_Nil change_value_of_def)
  show "g_multiplier (run ?P [CallSetMultiplier Forward, CallSetMultiplier Forward]
      (main_init ?P)) = MultiplierEighth"
    and "g_base_duty_cycle (run ?P [CallSetMultiplier Forward, CallSetMultiplier Forward]
      (main_init ?P)) = 137438"
    and "g_duty_cycle (run ?P [CallSetMultiplier Forward, CallSetMultiplier Forward]
      (main_init ?P)) = 274876"
    and "g_phase_accumulator (run ?P [CallSetMultiplier Forward, CallSetMultiplier Forward]
      (main_init ?P)) = 0"
    and "g_base_phase_accumulator
     (run ?P [CallSetMultiplier Forward, CallSetMultiplier Forward]
      (main_init ?P)) = 0"
    unfolding r b by (simp_all add: main_init_phase)
qed

lemma dotted_quarter_start:
  "g_multiplier (run ideal_platform [CallSetMultiplier Backward] (main_init ideal_platform))
     = MultiplierDottedQuarter"
  "g_base_duty_cycle (run ideal_platform [CallSetMultiplier Backward] (main_init ideal_platform))
     = 137438"
  "g_duty_cycle (run ideal_platform [CallSetMultiplier Backward] (main_init ideal_platform))
     = 91625"
  "g_phase_accumulator (run ideal_platform [CallSetMultiplier Backward] (main_init ideal_platform))
     = 0"
  "g_base_phase_accumulator
     (run ideal_platform [CallSetMultiplier Backward] (main_init ideal_platform)) = 0"
proof -
  let ?P = ideal_platform
  have a: "SetMultiplier ?P (- 1) (main_init ?P) =
      (main_init ?P)\<lparr>g_multiplier := MultiplierDottedQuarter,
        g_base_duty_cycle := 137438, g_duty_cycle := 91625, g_phase_accumulator := 0\<rparr>"
    by (simp add: SetMultiplier_backward main_init_tempo main_init_phase ideal_duty)
  have r: "run ?P [CallSetMultiplier Backward] (main_init ?P)
      = SetMultiplier ?P (- 1) (main_init ?P)"
    by (simp add: run_Cons run_Nil change_value_of_def)
  show "g_multiplier (run ?P [CallSetMultiplier Backward] (main_init ?P))
      = MultiplierDottedQuarter"
    and "g_base_duty_cycle (run ?P [CallSetMultiplier Backward] (main_init ?P)) = 137438"
    and "g_duty_cycle (run ?P [CallSetMultiplier Backward] (main_init ?P)) = 91625"
    and "g_phase_accumulator (run ?P [CallSetMultiplier Backward] (main_init ?P)) = 0"
    and "g_base_phase_accumulator (run ?P [CallSetMultiplier Backward] (main_init ?P)) = 0"
    unfolding r a by (simp_all add: main_init_phase)
qed

lemma table_index_values:
  "table_index_of 4294937500 = 0xFF"
  "table_index_of 2147468750 = 0x7F"
  "table_index_of 4295212376 = 0"
  "table_index_of 2147606188 = 0x80"
  "table_index_of 4295074938 = 0"
  "table_index_of 2863281250 = 0xAA"
  "table_index_of 2863372875 = 0xAA"
  by (simp_all add: table_index_of_def)

text \<open>
  C1 on the code. The sample-tick handler advances the base accumulator and stores
  \<open>g_base_table_index\<close>, and nothing reads that index: the indicator is toggled in
  \<^verbatim>\<open>PlotWaveform\<close> on a wrap of the working index. Two runs from the initial state, at
  the initial tempo of 1000 ms (a base cycle of 31250 sample ticks):

  \<^item> with the multiplier at Eighth, 15625 ticks after the start the base table index is
    \<open>0x7F\<close>, the middle of the base cycle; the next tick takes it to \<open>0x80\<close>, no wrap, and
    the indicator toggles;
  \<^item> with the multiplier at Dotted Quarter, 31250 ticks after the start the base table
    index is \<open>0xFF\<close>; the next tick wraps it to 0, a complete base cycle, and the indicator
    does not move.
\<close>

theorem tempo_indicator_ignores_base_cycle:
  "g_multiplier (run ideal_platform eighth_note_ticks (main_init ideal_platform))
     = MultiplierEighth
   \<and> g_base_table_index (run ideal_platform eighth_note_ticks (main_init ideal_platform)) = 0x7F
   \<and> g_base_table_index
       (step ideal_platform SampleTick
         (run ideal_platform eighth_note_ticks (main_init ideal_platform))) = 0x80
   \<and> TEMPO_OUT
       (step ideal_platform SampleTick
         (run ideal_platform eighth_note_ticks (main_init ideal_platform)))
     = (\<not> TEMPO_OUT (run ideal_platform eighth_note_ticks (main_init ideal_platform)))
   \<and> g_multiplier (run ideal_platform dotted_quarter_ticks (main_init ideal_platform))
     = MultiplierDottedQuarter
   \<and> g_base_table_index (run ideal_platform dotted_quarter_ticks (main_init ideal_platform))
     = 0xFF
   \<and> g_base_table_index
       (step ideal_platform SampleTick
         (run ideal_platform dotted_quarter_ticks (main_init ideal_platform))) = 0
   \<and> TEMPO_OUT
       (step ideal_platform SampleTick
         (run ideal_platform dotted_quarter_ticks (main_init ideal_platform)))
     = TEMPO_OUT (run ideal_platform dotted_quarter_ticks (main_init ideal_platform))"
proof -
  let ?P = ideal_platform
  let ?init = "run ?P [CallSetMultiplier Forward, CallSetMultiplier Forward] (main_init ?P)"
  let ?e = "run ?P (replicate 15625 SampleTick) ?init"
  have e: "run ?P eighth_note_ticks (main_init ?P) = ?e"
    by (simp only: eighth_note_ticks_def run_append)
  have n: "(15625 :: nat) = Suc 15624" by simp
  note st = eighth_note_start
  from sample_ticks [where P = ?P and n = 15625 and s = ?init]
  have f: "g_phase_accumulator ?e = 4294937500" "g_base_phase_accumulator ?e = 2147468750"
    "g_duty_cycle ?e = 274876" "g_base_duty_cycle ?e = 137438"
    "g_multiplier ?e = MultiplierEighth"
    by (simp_all add: st)
  from sample_ticks_index [where P = ?P and n = 15624 and s = ?init]
  have i: "g_table_index ?e = 0xFF" "g_base_table_index ?e = 0x7F"
    unfolding n [symmetric] by (simp_all add: st table_index_values)
  have eighth: "g_multiplier ?e = MultiplierEighth \<and> g_base_table_index ?e = 0x7F
      \<and> g_base_table_index (step ?P SampleTick ?e) = 0x80
      \<and> TEMPO_OUT (step ?P SampleTick ?e) = (\<not> TEMPO_OUT ?e)"
    by (simp add: TIM0_OVF_fields f i table_index_values)
  let ?start = "run ?P [CallSetMultiplier Backward] (main_init ?P)"
  let ?d = "run ?P (replicate 31250 SampleTick) ?start"
  have d: "run ?P dotted_quarter_ticks (main_init ?P) = ?d"
    by (simp only: dotted_quarter_ticks_def run_append)
  have m: "(31250 :: nat) = Suc 31249" by simp
  note dq = dotted_quarter_start
  from sample_ticks [where P = ?P and n = 31250 and s = ?start]
  have g: "g_phase_accumulator ?d = 2863281250" "g_base_phase_accumulator ?d = 4294937500"
    "g_duty_cycle ?d = 91625" "g_base_duty_cycle ?d = 137438"
    "g_multiplier ?d = MultiplierDottedQuarter"
    by (simp_all add: dq)
  from sample_ticks_index [where P = ?P and n = 31249 and s = ?start]
  have j: "g_table_index ?d = 0xAA" "g_base_table_index ?d = 0xFF"
    unfolding m [symmetric] by (simp_all add: dq table_index_values)
  have dotted: "g_multiplier ?d = MultiplierDottedQuarter \<and> g_base_table_index ?d = 0xFF
      \<and> g_base_table_index (step ?P SampleTick ?d) = 0
      \<and> TEMPO_OUT (step ?P SampleTick ?d) = TEMPO_OUT ?d"
    by (simp add: TIM0_OVF_fields g j table_index_values)
  from eighth dotted show ?thesis
    unfolding e d by (simp only: simp_thms)
qed

subsection \<open>Seeding on a tap\<close>

lemma completing_tap_never_seeds:
  assumes "is_counting_tempo s"
  shows "rng_seed (tap_switch_closed P s) = rng_seed s"
    and "rng_calls (tap_switch_closed P s) = rng_calls s"
    and "random_log (tap_switch_closed P s) = random_log s"
    and "has_random_seed (tap_switch_closed P s) = has_random_seed s"
    and "has_received_tap_input (tap_switch_closed P s)"
    and "g_base_tempo (tap_switch_closed P s)
          = g_base_tempo (SetBaseTempo P (g_tempo_ms_count s) s)"
  using assms
  by (simp_all add: tap_switch_closed_def StopTempoCount_def ResetSignals_def ResetBaseTempo_def
        AlignWaveform_def SetBaseTempo_def RecalculateTempo_def Let_def)

lemma opening_tap:
  assumes "\<not> is_counting_tempo s" and "\<not> has_random_seed s"
    and "\<not> has_received_tap_input s"
  shows "rng_seed (tap_switch_closed P s) = 0"
    and "rng_calls (tap_switch_closed P s) = 1"
    and "random_log (tap_switch_closed P s)
          = random_log s @ [of_nat ((libc_rand P 0 0 mod 8) * 31)]"
    and "has_random_seed (tap_switch_closed P s)"
    and "\<not> has_received_tap_input (tap_switch_closed P s)"
    and "is_counting_tempo (tap_switch_closed P s)"
    and "g_tempo_ms_count (tap_switch_closed P s) = 0"
    and "g_base_tempo (tap_switch_closed P s) = g_base_tempo s"
    and "is_counting_mode_reset_time (tap_switch_closed P s) = is_counting_mode_reset_time s"
  using assms
  by (simp_all add: tap_switch_closed_def StartTempoCount_def ResetSignals_def
        ResetBaseTempo_def AlignWaveform_def Let_def UpdateRandomNumber_def
        SeedRandomNumberGenerator_def WAVEFORM_RANDOM_STEP_COUNT_def WAVEFORM_STEP_SIZE_def
        del: of_nat_mult)

lemma ms_tick_counting:
  assumes "is_counting_tempo s" and "\<not> is_counting_mode_reset_time s"
    and "unat (g_tempo_ms_count s) < 10000"
  shows "\<exists>v. TIM1_COMPA P sel s =
           s\<lparr>g_tempo_ms_count := g_tempo_ms_count s + 1, g_speed_adjustment_ms_count := v\<rparr>"
proof -
  from assms(3) have "unat (g_tempo_ms_count s + 1) = unat (g_tempo_ms_count s) + 1"
    by (simp add: unat_word_ariths)
  with assms(3) have "\<not> g_tempo_ms_count s + 1 > LFO_MIN_TEMPO"
    by (simp add: word_less_nat_alt LFO_MIN_TEMPO_def)
  with assms(1,2) show ?thesis
    by (cases "g_speed_adjustment_ms_count s < 0xffff")
      (auto simp: TIM1_COMPA_def Let_def intro: exI [of _ "g_speed_adjustment_ms_count s"])
qed

lemma ms_ticks_counting:
  "is_counting_tempo s \<Longrightarrow> \<not> is_counting_mode_reset_time s \<Longrightarrow>
   unat (g_tempo_ms_count s) + n \<le> 10000 \<Longrightarrow>
   \<exists>v. run P (replicate n (MsTick sel)) s =
          s\<lparr>g_tempo_ms_count := g_tempo_ms_count s + of_nat n,
            g_speed_adjustment_ms_count := v\<rparr>"
proof (induction n arbitrary: s)
  case 0
  have "s = s\<lparr>g_tempo_ms_count := g_tempo_ms_count s + of_nat 0,
              g_speed_adjustment_ms_count := g_speed_adjustment_ms_count s\<rparr>"
    by simp
  then show ?case unfolding replicate_0 run_Nil by (rule exI)
next
  case (Suc n)
  from Suc.prems have "unat (g_tempo_ms_count s) < 10000" by simp
  from ms_tick_counting [OF Suc.prems(1,2) this, of P sel]
  obtain v where t: "TIM1_COMPA P sel s =
      s\<lparr>g_tempo_ms_count := g_tempo_ms_count s + 1, g_speed_adjustment_ms_count := v\<rparr>"
    by blast
  let ?t = "TIM1_COMPA P sel s"
  from Suc.prems have "unat (g_tempo_ms_count s + 1) = unat (g_tempo_ms_count s) + 1"
    by (simp add: unat_word_ariths)
  with Suc.prems t have "is_counting_tempo ?t" "\<not> is_counting_mode_reset_time ?t"
    "unat (g_tempo_ms_count ?t) + n \<le> 10000"
    by simp_all
  from Suc.IH [OF this] obtain w where
    "run P (replicate n (MsTick sel)) ?t =
       ?t\<lparr>g_tempo_ms_count := g_tempo_ms_count ?t + of_nat n,
          g_speed_adjustment_ms_count := w\<rparr>"
    by blast
  with t have "run P (replicate (Suc n) (MsTick sel)) s =
      s\<lparr>g_tempo_ms_count := g_tempo_ms_count s + of_nat (Suc n),
        g_speed_adjustment_ms_count := w\<rparr>"
    by (simp add: run_Cons add.assoc add.commute)
  then show ?case by (rule exI)
qed

lemma main_init_flags:
  "\<not> is_counting_tempo (main_init P)"
  "\<not> has_random_seed (main_init P)"
  "\<not> has_received_tap_input (main_init P)"
  "\<not> is_counting_mode_reset_time (main_init P)"
  by (simp_all add: main_init_def SetBaseTempo_def RecalculateTempo_def Let_def
        UpdateRandomNumber_def SeedRandomNumberGenerator_def startup_def)

text \<open>
  C3 on the code. The seeding block of the main loop runs when \<open>has_received_tap_input\<close>
  is still 0, which is on the tap that starts a count: \<^verbatim>\<open>StartTempoCount\<close> has just cleared
  \<open>g_tempo_ms_count\<close>, so the seed is 0, and \<open>has_random_seed\<close> is latched there. The tap
  that completes the count sets \<open>has_received_tap_input\<close> first and never seeds. For two
  taps 500 ms apart from the initial state: after the first tap the generator has been
  seeded with 0 and has stored the same level as at startup; after the second tap the base
  tempo is 500, and the seed and the stored levels are as they were.
\<close>

theorem first_tap_seeds_with_zero:
  "has_random_seed (run ideal_platform first_tap (main_init ideal_platform))
   \<and> rng_seed (run ideal_platform first_tap (main_init ideal_platform)) = 0
   \<and> random_log (run ideal_platform first_tap (main_init ideal_platform)) = [62, 62]
   \<and> g_base_tempo (run ideal_platform tap_pair_500 (main_init ideal_platform)) = 500
   \<and> has_received_tap_input (run ideal_platform tap_pair_500 (main_init ideal_platform))
   \<and> rng_seed (run ideal_platform tap_pair_500 (main_init ideal_platform)) = 0
   \<and> random_log (run ideal_platform tap_pair_500 (main_init ideal_platform)) = [62, 62]"
proof -
  let ?P = ideal_platform
  let ?a = "tap_switch_closed ?P (main_init ?P)"
  note a = opening_tap [OF main_init_flags(1,2,3), of ?P]
  have ra: "run ?P first_tap (main_init ?P) = ?a"
    by (simp add: first_tap_def run_Cons run_Nil)
  from a(6) a(9) a(7) main_init_flags(4) [of ?P]
  have "is_counting_tempo ?a" "\<not> is_counting_mode_reset_time ?a"
    "unat (g_tempo_ms_count ?a) + 500 \<le> 10000"
    by simp_all
  from ms_ticks_counting [OF this, of ?P SelectWaveform] a(7)
  obtain v where b: "run ?P (replicate 500 (MsTick SelectWaveform)) ?a =
      ?a\<lparr>g_tempo_ms_count := 500, g_speed_adjustment_ms_count := v\<rparr>"
    by auto
  let ?b = "?a\<lparr>g_tempo_ms_count := 500, g_speed_adjustment_ms_count := v\<rparr>"
  have rb: "run ?P tap_pair_500 (main_init ?P) = tap_switch_closed ?P ?b"
    by (simp add: tap_pair_500_def run_append ra b run_Cons run_Nil)
  from a(6) have cb: "is_counting_tempo ?b" by simp
  note c = completing_tap_never_seeds [OF cb, of ?P]
  have tempo: "g_base_tempo (SetBaseTempo ?P (g_tempo_ms_count ?b) ?b) = 500"
    by (simp add: SetBaseTempo_def RecalculateTempo_def Let_def a(8) main_init_tempo
          LFO_MIN_TEMPO_def LFO_MAX_TEMPO_def)
  have log: "random_log ?a = [62, 62]"
    by (simp add: a(3) main_init_random ideal_rand_0)
  show ?thesis
    unfolding ra rb using a(1,4) c tempo log by simp
qed

subsection \<open>The alignment index\<close>

lemma AlignWaveform_index:
  "g_multiplier_alignment_index (AlignWaveform s) =
     (if g_multiplier_alignment_index s \<ge> 12 then 1 else g_multiplier_alignment_index s + 1)"
  by (simp add: AlignWaveform_def Let_def MULTIPLIER_ALIGNMENT_OFFSET_def)

lemma AlignWaveform_bound:
  "1 \<le> unat (g_multiplier_alignment_index (AlignWaveform s))
   \<and> unat (g_multiplier_alignment_index (AlignWaveform s)) \<le> 12"
proof (cases "g_multiplier_alignment_index s \<ge> 12")
  case True
  then show ?thesis by (simp add: AlignWaveform_index)
next
  case False
  then have "unat (g_multiplier_alignment_index s) < 12"
    by (simp add: word_le_nat_alt)
  with False show ?thesis
    by (simp add: AlignWaveform_index unat_word_ariths)
qed

lemma StartTempoCount_index:
  "g_multiplier_alignment_index (StartTempoCount s) =
     g_multiplier_alignment_index (AlignWaveform s)"
  by (simp add: StartTempoCount_def AlignWaveform_index ResetBaseTempo_def)

lemma StopTempoCount_index:
  "g_multiplier_alignment_index (StopTempoCount P s) =
     g_multiplier_alignment_index (AlignWaveform s)"
  by (simp add: StopTempoCount_def AlignWaveform_index ResetBaseTempo_def Let_def
        SetBaseTempo_def RecalculateTempo_def)

lemma ResetCurrentSelectionMode_index:
  "g_multiplier_alignment_index (ResetCurrentSelectionMode P sel s) =
     g_multiplier_alignment_index s"
  by (cases sel)
    (simp_all add: ResetCurrentSelectionMode_def ResetWaveformSetting_def
      ResetMultiplierSetting_def ResetDepthSetting_def ResetSpeedAdjustSetting_def
      AdjustPhaseAccumulation_def RecalculateTempo_def Let_def CalcDepthTable_eq)

lemma step_index_bound:
  assumes "unat (g_multiplier_alignment_index s) \<le> 12"
  shows "unat (g_multiplier_alignment_index (step P e s)) \<le> 12"
proof (cases e)
  case SampleTick
  with assms show ?thesis
    by (simp add: TIM0_OVF_def PlotWaveform_def UpdateRandomNumber_def Let_def)
next
  case (MsTick sel)
  with assms show ?thesis
    by (simp add: TIM1_COMPA_def Let_def TempoCountTimeout_def ResetCurrentSelectionMode_index)
next
  case TapSwitchClosed
  then show ?thesis
    using AlignWaveform_bound [of "ResetSignals s"]
    by (simp add: tap_switch_closed_def Let_def StartTempoCount_index StopTempoCount_index
        UpdateRandomNumber_def SeedRandomNumberGenerator_def)
next
  case ModeSwitchClosed
  with assms show ?thesis by (simp add: mode_switch_closed_def)
next
  case ModeSwitchOpened
  with assms show ?thesis by (simp add: mode_switch_opened_def)
next
  case (SyncInput level)
  with assms show ?thesis
    using AlignWaveform_bound [of "s\<lparr>previous_sync_input := level\<rparr>"]
    by (auto simp: PCINT1_def Let_def StartTempoCount_index StopTempoCount_index)
next
  case (CallSetWaveform d)
  with assms show ?thesis by (simp add: SetWaveform_def CalcDepthTable_eq)
next
  case (CallSetMultiplier d)
  with assms show ?thesis
    by (simp add: SetMultiplier_def AdjustPhaseAccumulation_def RecalculateTempo_def Let_def)
next
  case (CallSetDepth d)
  with assms show ?thesis by (simp add: SetDepth_def CalcDepthTable_eq Let_def)
next
  case (CallAdjustSpeed n)
  with assms show ?thesis by (simp add: AdjustSpeed_def RecalculateTempo_def Let_def)
next
  case (CallReset sel)
  with assms show ?thesis by (simp add: ResetCurrentSelectionMode_index)
qed

lemma run_index_bound:
  "unat (g_multiplier_alignment_index s) \<le> 12 \<Longrightarrow>
   unat (g_multiplier_alignment_index (run P es s)) \<le> 12"
  by (induction es arbitrary: s) (simp_all add: run_Nil run_Cons step_index_bound)

lemma main_init_index: "g_multiplier_alignment_index (main_init P) = 0"
  by (simp add: main_init_def SetBaseTempo_def RecalculateTempo_def Let_def
        UpdateRandomNumber_def SeedRandomNumberGenerator_def startup_def)

text \<open>
  \<^verbatim>\<open>AdjustPhaseAccumulation\<close> has two callers, \<^verbatim>\<open>SetMultiplier\<close> and
  \<^verbatim>\<open>ResetMultiplierSetting\<close>. Both call it, when the multiplier changes, on the state
  that \<^verbatim>\<open>RecalculateTempo\<close> returns for the new multiplier, and it multiplies by the
  alignment index of that state.
\<close>

lemma AdjustPhaseAccumulation_callers:
  "SetMultiplier P c s = s
   \<or> (\<exists>m. SetMultiplier P c s
            = AdjustPhaseAccumulation P (RecalculateTempo P (s\<lparr>g_multiplier := m\<rparr>)))"
  "ResetMultiplierSetting P s = s
   \<or> ResetMultiplierSetting P s
       = AdjustPhaseAccumulation P (RecalculateTempo P (s\<lparr>g_multiplier := MultiplierQuarter\<rparr>))"
  by (auto simp: SetMultiplier_def ResetMultiplierSetting_def Let_def)

lemma AdjustPhaseAccumulation_reads:
  "g_phase_accumulator (AdjustPhaseAccumulation P t)
     = phase_times_ratio P (g_base_phase_accumulator t) (g_multiplier t)
         (g_multiplier_alignment_index t)"
  by (simp add: AdjustPhaseAccumulation_def)

text \<open>
  C6, as the code has it. \<^verbatim>\<open>AlignWaveform\<close> wraps the index when it enters, not after the
  increment, so the value 12 is stored. After any sequence of events from the initial
  state the index lies in \<open>[0, 12]\<close>. This holds in particular immediately after every call
  to \<^verbatim>\<open>AlignWaveform\<close>, from any state, where the index is also at least 1; and it holds
  in the state that \<^verbatim>\<open>AdjustPhaseAccumulation\<close> reads when it is called after any such
  sequence, for any new multiplier \<open>m\<close>, where the index can be 0.
\<close>

theorem alignment_index_bound:
  "unat (g_multiplier_alignment_index (run P es (main_init P))) \<le> 12
   \<and> 1 \<le> unat (g_multiplier_alignment_index (AlignWaveform s))
   \<and> unat (g_multiplier_alignment_index (AlignWaveform s)) \<le> 12
   \<and> unat (g_multiplier_alignment_index
            (RecalculateTempo P ((run P es (main_init P))\<lparr>g_multiplier := m\<rparr>))) \<le> 12
   \<and> g_multiplier_alignment_index
         (RecalculateTempo P ((main_init P)\<lparr>g_multiplier := m\<rparr>)) = 0"
proof -
  have r: "unat (g_multiplier_alignment_index (run P es (main_init P))) \<le> 12"
    using run_index_bound [of "main_init P" P es] by (simp add: main_init_index)
  have "g_multiplier_alignment_index (RecalculateTempo P (t\<lparr>g_multiplier := m\<rparr>))
      = g_multiplier_alignment_index t" for t
    by (simp add: RecalculateTempo_def Let_def)
  with r AlignWaveform_bound [of s] show ?thesis
    by (simp add: main_init_index)
qed

lemma sync_edge:
  "previous_sync_input s \<noteq> level \<Longrightarrow>
   previous_sync_input (PCINT1 P level s) = level
   \<and> g_multiplier_alignment_index (PCINT1 P level s) =
       (if g_multiplier_alignment_index s \<ge> 12 then 1 else g_multiplier_alignment_index s + 1)"
  by (auto simp: PCINT1_def Let_def StartTempoCount_def StopTempoCount_def AlignWaveform_def
        ResetBaseTempo_def SetBaseTempo_def RecalculateTempo_def
        MULTIPLIER_ALIGNMENT_OFFSET_def)

lemma sync_pulse:
  assumes "\<not> previous_sync_input s" and "unat (g_multiplier_alignment_index s) + 2 \<le> 12"
  shows "\<not> previous_sync_input (run P [SyncInput True, SyncInput False] s)
   \<and> unat (g_multiplier_alignment_index (run P [SyncInput True, SyncInput False] s))
       = unat (g_multiplier_alignment_index s) + 2"
proof -
  let ?t = "PCINT1 P True s"
  from assms(2) have lt: "\<not> 12 \<le> g_multiplier_alignment_index s"
    by (simp add: word_le_nat_alt)
  from assms(1) have "previous_sync_input s \<noteq> True" by simp
  from sync_edge [OF this, of P] lt
  have t: "previous_sync_input ?t"
    "g_multiplier_alignment_index ?t = g_multiplier_alignment_index s + 1"
    by simp_all
  from assms(2) have u: "unat (g_multiplier_alignment_index ?t)
      = unat (g_multiplier_alignment_index s) + 1"
    by (simp add: t(2) unat_word_ariths)
  with assms(2) have lt': "\<not> 12 \<le> g_multiplier_alignment_index ?t"
    by (simp add: word_le_nat_alt)
  from t(1) have "previous_sync_input ?t \<noteq> False" by simp
  from sync_edge [OF this, of P] lt'
  have r: "\<not> previous_sync_input (PCINT1 P False ?t)"
    "g_multiplier_alignment_index (PCINT1 P False ?t) = g_multiplier_alignment_index ?t + 1"
    by simp_all
  from u assms(2) have "unat (g_multiplier_alignment_index ?t + 1)
      = unat (g_multiplier_alignment_index s) + 2"
    by (simp add: unat_word_ariths)
  with r show ?thesis by (simp add: run_Cons run_Nil)
qed

lemma sync_pulses:
  "\<not> previous_sync_input s \<Longrightarrow> unat (g_multiplier_alignment_index s) + 2 * n \<le> 12 \<Longrightarrow>
   \<not> previous_sync_input (run P (concat (replicate n [SyncInput True, SyncInput False])) s)
   \<and> unat (g_multiplier_alignment_index
        (run P (concat (replicate n [SyncInput True, SyncInput False])) s))
       = unat (g_multiplier_alignment_index s) + 2 * n"
proof (induction n arbitrary: s)
  case 0
  then show ?case by (simp add: run_Nil)
next
  case (Suc n)
  let ?t = "run P [SyncInput True, SyncInput False] s"
  from Suc.prems have "unat (g_multiplier_alignment_index s) + 2 \<le> 12" by simp
  from sync_pulse [OF Suc.prems(1) this, of P]
  have t: "\<not> previous_sync_input ?t"
    "unat (g_multiplier_alignment_index ?t) = unat (g_multiplier_alignment_index s) + 2"
    by simp_all
  with Suc.prems have "unat (g_multiplier_alignment_index ?t) + 2 * n \<le> 12" by simp
  from Suc.IH [OF t(1) this] t(2)
  have "\<not> previous_sync_input
         (run P (concat (replicate n [SyncInput True, SyncInput False])) ?t)
   \<and> unat (g_multiplier_alignment_index
        (run P (concat (replicate n [SyncInput True, SyncInput False])) ?t))
       = unat (g_multiplier_alignment_index s) + 2 * Suc n"
    by simp
  moreover have "run P (concat (replicate (Suc n) [SyncInput True, SyncInput False])) s
      = run P (concat (replicate n [SyncInput True, SyncInput False])) ?t"
    by (simp add: run_Cons run_Nil)
  ultimately show ?case by simp
qed

text \<open>C6 as stated fails: twelve sync edges from the initial state leave the index at 12.\<close>

theorem alignment_index_bound_counterexample:
  "g_multiplier_alignment_index (run ideal_platform twelve_sync_edges (main_init ideal_platform))
     = 12"
proof -
  have "\<not> previous_sync_input (main_init ideal_platform)"
    by (simp add: main_init_def SetBaseTempo_def RecalculateTempo_def Let_def
        UpdateRandomNumber_def SeedRandomNumberGenerator_def startup_def)
  from sync_pulses [OF this, of 6 ideal_platform]
  have "unat (g_multiplier_alignment_index
          (run ideal_platform twelve_sync_edges (main_init ideal_platform))) = 12"
    by (simp add: main_init_index twelve_sync_edges_def)
  then show ?thesis by (simp add: word_unat_eq_iff)
qed

subsection \<open>The random sequence without taps\<close>


lemma seeded_with_zero_cong:
  "rng_seed t = rng_seed s \<Longrightarrow> rng_calls t = rng_calls s \<Longrightarrow> random_log t = random_log s \<Longrightarrow>
   seeded_with_zero P s \<Longrightarrow> seeded_with_zero P t"
  by (simp add: seeded_with_zero_def)











end
